theory Spec2Isabelle
  imports Complex_Main
begin

section \<open>Errors\<close>

text \<open>
  The Python exceptions the two modules raise, as values. \<open>BackendError\<close> stands for any
  exception thrown by a call into the Athena client and \<open>SleepError\<close> for an exception
  of \<open>time.sleep\<close> other than the \<open>ValueError\<close> for a negative length; the other three
  are the built-in exception classes the source raises itself, each with its message.
\<close>

datatype error =
    ValueError string
  | RuntimeError string
  | TimeoutError string
  | BackendError string
  | SleepError string

section \<open>The query poller and result fetcher (\<open>aws_mcp_server.athena_results\<close>)\<close>

text \<open>
  \<open>q["Status"]\<close> of a \<open>get_query_execution\<close> reply: the state string and the optional
  \<open>StateChangeReason\<close>.
\<close>

record execution =
  State :: string
  StateChangeReason :: "string option"

text \<open>
  A result row is the list \<open>r["Data"]\<close>; each cell is a dictionary that either has the
  key \<open>VarCharValue\<close> or lacks it.
\<close>

type_synonym cell = "string option"
type_synonym row = "cell list"

text \<open>
  The world outside the poller: the reply to the \<open>k\<close>-th call of
  \<open>get_query_execution\<close> (a fault when the client raises), the \<open>k\<close>-th reading of
  \<open>time()\<close>, the reply of \<open>get_query_results\<close> for a query id and \<open>MaxResults\<close>, and
  \<open>sleep_fault\<close>: whether the \<open>k\<close>-th \<open>time.sleep\<close>, of a given number of
  milliseconds, fails for a reason of the platform, with the message. Such a failure is
  the \<open>OverflowError\<close> or \<open>OSError\<close> of a length that the clock of the platform
  cannot hold (where it sets in depends on the platform and on how long it has been
  up), or the \<open>OverflowError\<close> of the division \<open>wait_ms/1000\<close> itself for a number
  beyond the floats. Clock readings are exact reals.
\<close>

record athena_env =
  get_query_execution :: "nat \<Rightarrow> string \<Rightarrow> string + execution"
  clock :: "nat \<Rightarrow> real"
  get_query_results :: "string \<Rightarrow> int \<Rightarrow> string + row list"
  sleep_fault :: "nat \<Rightarrow> int \<Rightarrow> string option"

text \<open>The value \<open>athena_results\<close> returns: \<open>{"columns": headers, "rows": data}\<close>.\<close>

record result_set =
  columns :: "string list"
  rows :: "cell list list"

text \<open>Python's \<open>a or b\<close> on two optional strings: \<open>None\<close> and \<open>""\<close> are falsy.\<close>

definition py_or :: "string option \<Rightarrow> string option \<Rightarrow> string option" where
  "py_or a b = (case a of None \<Rightarrow> b | Some s \<Rightarrow> if s = [] then b else Some s)"

definition falsy :: "string option \<Rightarrow> bool" where
  "falsy a = (case a of None \<Rightarrow> True | Some s \<Rightarrow> s = [])"

text \<open>
  \<open>time.sleep(wait_ms/1000)\<close> at iteration \<open>k\<close>: the error it raises, if any. A
  negative length that fits the 64-bit count of nanoseconds the interpreter converts it
  to raises \<open>ValueError\<close>; any other failure is the world's.
\<close>

definition sleep :: "athena_env \<Rightarrow> nat \<Rightarrow> int \<Rightarrow> error option" where
  "sleep env k wait_ms =
     (if wait_ms < 0 \<and> - (2 ^ 63) \<le> wait_ms * 10 ^ 6
      then Some (ValueError ''sleep length must be non-negative'')
      else map_option SleepError (sleep_fault env k wait_ms))"

text \<open>
  The \<open>while True\<close> loop. Iteration \<open>k\<close> (from 0) makes the \<open>k\<close>-th status call and,
  when the state is not terminal, the reading \<open>Suc k\<close> of the clock (reading 0 is
  \<open>start\<close>) and the \<open>k\<close>-th sleep. The result is the outcome together with the number
  of status calls made; \<open>None\<close> is a loop that never ends.
\<close>

partial_function (option) poll_loop ::
  "athena_env \<Rightarrow> string \<Rightarrow> int \<Rightarrow> int \<Rightarrow> real \<Rightarrow> nat \<Rightarrow> ((error + unit) \<times> nat) option"
where
  "poll_loop env qid wait_ms max_wait_s start k =
     (case get_query_execution env k qid of
        Inl f \<Rightarrow> Some (Inl (BackendError f), Suc k)
      | Inr q \<Rightarrow>
          if State q = ''SUCCEEDED'' then Some (Inr (), Suc k)
          else if State q = ''FAILED'' \<or> State q = ''CANCELLED'' then
            Some (Inl (RuntimeError (''Athena '' @ State q @ '': '' @
                    (case StateChangeReason q of None \<Rightarrow> [] | Some r \<Rightarrow> r))), Suc k)
          else if clock env (Suc k) - start > real_of_int max_wait_s then
            Some (Inl (TimeoutError ''Athena query timed out''), Suc k)
          else
            (case sleep env k wait_ms of
               Some e \<Rightarrow> Some (Inl e, Suc k)
             | None \<Rightarrow> poll_loop env qid wait_ms max_wait_s start (Suc k)))"

definition headers_of :: "row list \<Rightarrow> string list" where
  "headers_of rs =
     (case rs of [] \<Rightarrow> []
      | r # _ \<Rightarrow> map (\<lambda>c. case c of None \<Rightarrow> [] | Some v \<Rightarrow> v) r)"

definition data_of :: "row list \<Rightarrow> cell list list" where
  "data_of rs = (if length rs > 1 then map (map (\<lambda>d. d)) (tl rs) else [])"

definition athena_results ::
  "athena_env \<Rightarrow> string option \<Rightarrow> string option \<Rightarrow> int \<Rightarrow> int \<Rightarrow> int
     \<Rightarrow> ((error + result_set) \<times> nat) option"
where
  "athena_results env query_execution_id queryExecutionId max_rows wait_ms max_wait_s =
     (let qid = py_or query_execution_id queryExecutionId in
      if falsy qid then
        Some (Inl (ValueError ''Provide query_execution_id (or queryExecutionId).''), 0)
      else
        (case poll_loop env (the qid) wait_ms max_wait_s (clock env 0) 0 of
           None \<Rightarrow> None
         | Some (Inl e, n) \<Rightarrow> Some (Inl e, n)
         | Some (Inr _, n) \<Rightarrow>
             (case get_query_results env (the qid) max_rows of
                Inl f \<Rightarrow> Some (Inl (BackendError f), n)
              | Inr rs \<Rightarrow> Some (Inr \<lparr>columns = headers_of rs, rows = data_of rs\<rparr>, n))))"

text \<open>
  Vocabulary for statements about a run of the poller: a state is terminal when the loop
  leaves on it; at iteration \<open>j\<close> the deadline has expired when the reading taken there
  exceeds \<open>start + max_wait_s\<close>; the job is still running at \<open>j\<close> when the \<open>j\<close>-th
  status call answers with a state that is not terminal; the poller goes on after
  iteration \<open>j\<close> when the job is still running, the deadline has not expired and the
  sleep returns.
\<close>

definition terminal :: "string \<Rightarrow> bool" where
  "terminal st = (st = ''SUCCEEDED'' \<or> st = ''FAILED'' \<or> st = ''CANCELLED'')"

definition expired :: "athena_env \<Rightarrow> int \<Rightarrow> nat \<Rightarrow> bool" where
  "expired env max_wait_s j = (clock env (Suc j) - clock env 0 > real_of_int max_wait_s)"

definition running_at :: "athena_env \<Rightarrow> string \<Rightarrow> nat \<Rightarrow> bool" where
  "running_at env qid j =
     (case get_query_execution env j qid of Inl _ \<Rightarrow> False | Inr q \<Rightarrow> \<not> terminal (State q))"

definition goes_on :: "athena_env \<Rightarrow> string \<Rightarrow> int \<Rightarrow> int \<Rightarrow> nat \<Rightarrow> bool" where
  "goes_on env qid wait_ms max_wait_s j =
     (running_at env qid j \<and> \<not> expired env max_wait_s j \<and> sleep env j wait_ms = None)"


text \<open>Three concrete worlds: a job that fails on the third poll, a job that runs for
  ever under a clock that advances 40 seconds per reading, and a job that succeeds on the
  second poll with three fetched rows. In none of them does a sleep fail for a reason of
  the platform.\<close>

definition env_failing :: athena_env where
  "env_failing = \<lparr>get_query_execution =
             (\<lambda>k qid. Inr \<lparr>State = (if k < 2 then ''RUNNING'' else ''FAILED''),
                            StateChangeReason = Some ''boom''\<rparr>),
           clock = (\<lambda>k. real k),
           get_query_results = (\<lambda>qid m. Inr []),
           sleep_fault = (\<lambda>k ms. None)\<rparr>"

definition env_stuck :: athena_env where
  "env_stuck = \<lparr>get_query_execution =
             (\<lambda>k qid. Inr \<lparr>State = ''RUNNING'', StateChangeReason = None\<rparr>),
           clock = (\<lambda>k. 40 * real k),
           get_query_results = (\<lambda>qid m. Inr []),
           sleep_fault = (\<lambda>k ms. None)\<rparr>"

definition env_done :: athena_env where
  "env_done = \<lparr>get_query_execution =
             (\<lambda>k qid. Inr \<lparr>State = (if k < 1 then ''RUNNING'' else ''SUCCEEDED''),
                            StateChangeReason = None\<rparr>),
           clock = (\<lambda>k. real k),
           get_query_results =
             (\<lambda>qid m. Inr [[Some ''day'', None], [Some ''mon'', None], [None, Some ''7'']]),
           sleep_fault = (\<lambda>k ms. None)\<rparr>"


section \<open>The statement guard (\<open>aws_mcp_server.SQL_BLOCK\<close>, \<open>athena_query\<close>)\<close>

text \<open>
  A statement is a Python \<open>str\<close>: a sequence of Unicode code points, here natural
  numbers (a code point is below \<open>0x110000\<close>). \<open>codes\<close> reads a literal of 8-bit
  characters as the code points 0 to 255.
\<close>

type_synonym unicode = "nat list"

definition codes :: "string \<Rightarrow> unicode" where
  "codes s = map of_char s"

text \<open>
  \<open>is_word\<close> is the class \<open>\w\<close> of Python's \<open>re\<close> for a \<open>str\<close> pattern: the code points
  that are alphanumeric (\<open>str.isalnum\<close>) and the underscore. \<open>word_ranges\<close> lists the
  maximal runs of such code points, in increasing order, as the Unicode database 14.0.0
  of Python 3.11 has them.
\<close>

definition word_ranges :: "(nat \<times> nat) list" where
  "word_ranges = [
    (48, 57), (65, 90), (95, 95), (97, 122), (170, 170), (178, 179), (181, 181), (185, 186),
    (188, 190), (192, 214), (216, 246), (248, 705), (710, 721), (736, 740), (748, 748),
    (750, 750), (880, 884), (886, 887), (890, 893), (895, 895), (902, 902), (904, 906),
    (908, 908), (910, 929), (931, 1013), (1015, 1153), (1162, 1327), (1329, 1366), (1369, 1369),
    (1376, 1416), (1488, 1514), (1519, 1522), (1568, 1610), (1632, 1641), (1646, 1647),
    (1649, 1747), (1749, 1749), (1765, 1766), (1774, 1788), (1791, 1791), (1808, 1808),
    (1810, 1839), (1869, 1957), (1969, 1969), (1984, 2026), (2036, 2037), (2042, 2042),
    (2048, 2069), (2074, 2074), (2084, 2084), (2088, 2088), (2112, 2136), (2144, 2154),
    (2160, 2183), (2185, 2190), (2208, 2249), (2308, 2361), (2365, 2365), (2384, 2384),
    (2392, 2401), (2406, 2415), (2417, 2432), (2437, 2444), (2447, 2448), (2451, 2472),
    (2474, 2480), (2482, 2482), (2486, 2489), (2493, 2493), (2510, 2510), (2524, 2525),
    (2527, 2529), (2534, 2545), (2548, 2553), (2556, 2556), (2565, 2570), (2575, 2576),
    (2579, 2600), (2602, 2608), (2610, 2611), (2613, 2614), (2616, 2617), (2649, 2652),
    (2654, 2654), (2662, 2671), (2674, 2676), (2693, 2701), (2703, 2705), (2707, 2728),
    (2730, 2736), (2738, 2739), (2741, 2745), (2749, 2749), (2768, 2768), (2784, 2785),
    (2790, 2799), (2809, 2809), (2821, 2828), (2831, 2832), (2835, 2856), (2858, 2864),
    (2866, 2867), (2869, 2873), (2877, 2877), (2908, 2909), (2911, 2913), (2918, 2927),
    (2929, 2935), (2947, 2947), (2949, 2954), (2958, 2960), (2962, 2965), (2969, 2970),
    (2972, 2972), (2974, 2975), (2979, 2980), (2984, 2986), (2990, 3001), (3024, 3024),
    (3046, 3058), (3077, 3084), (3086, 3088), (3090, 3112), (3114, 3129), (3133, 3133),
    (3160, 3162), (3165, 3165), (3168, 3169), (3174, 3183), (3192, 3198), (3200, 3200),
    (3205, 3212), (3214, 3216), (3218, 3240), (3242, 3251), (3253, 3257), (3261, 3261),
    (3293, 3294), (3296, 3297), (3302, 3311), (3313, 3314), (3332, 3340), (3342, 3344),
    (3346, 3386), (3389, 3389), (3406, 3406), (3412, 3414), (3416, 3425), (3430, 3448),
    (3450, 3455), (3461, 3478), (3482, 3505), (3507, 3515), (3517, 3517), (3520, 3526),
    (3558, 3567), (3585, 3632), (3634, 3635), (3648, 3654), (3664, 3673), (3713, 3714),
    (3716, 3716), (3718, 3722), (3724, 3747), (3749, 3749), (3751, 3760), (3762, 3763),
    (3773, 3773), (3776, 3780), (3782, 3782), (3792, 3801), (3804, 3807), (3840, 3840),
    (3872, 3891), (3904, 3911), (3913, 3948), (3976, 3980), (4096, 4138), (4159, 4169),
    (4176, 4181), (4186, 4189), (4193, 4193), (4197, 4198), (4206, 4208), (4213, 4225),
    (4238, 4238), (4240, 4249), (4256, 4293), (4295, 4295), (4301, 4301), (4304, 4346),
    (4348, 4680), (4682, 4685), (4688, 4694), (4696, 4696), (4698, 4701), (4704, 4744),
    (4746, 4749), (4752, 4784), (4786, 4789), (4792, 4798), (4800, 4800), (4802, 4805),
    (4808, 4822), (4824, 4880), (4882, 4885), (4888, 4954), (4969, 4988), (4992, 5007),
    (5024, 5109), (5112, 5117), (5121, 5740), (5743, 5759), (5761, 5786), (5792, 5866),
    (5870, 5880), (5888, 5905), (5919, 5937), (5952, 5969), (5984, 5996), (5998, 6000),
    (6016, 6067), (6103, 6103), (6108, 6108), (6112, 6121), (6128, 6137), (6160, 6169),
    (6176, 6264), (6272, 6276), (6279, 6312), (6314, 6314), (6320, 6389), (6400, 6430),
    (6470, 6509), (6512, 6516), (6528, 6571), (6576, 6601), (6608, 6618), (6656, 6678),
    (6688, 6740), (6784, 6793), (6800, 6809), (6823, 6823), (6917, 6963), (6981, 6988),
    (6992, 7001), (7043, 7072), (7086, 7141), (7168, 7203), (7232, 7241), (7245, 7293),
    (7296, 7304), (7312, 7354), (7357, 7359), (7401, 7404), (7406, 7411), (7413, 7414),
    (7418, 7418), (7424, 7615), (7680, 7957), (7960, 7965), (7968, 8005), (8008, 8013),
    (8016, 8023), (8025, 8025), (8027, 8027), (8029, 8029), (8031, 8061), (8064, 8116),
    (8118, 8124), (8126, 8126), (8130, 8132), (8134, 8140), (8144, 8147), (8150, 8155),
    (8160, 8172), (8178, 8180), (8182, 8188), (8304, 8305), (8308, 8313), (8319, 8329),
    (8336, 8348), (8450, 8450), (8455, 8455), (8458, 8467), (8469, 8469), (8473, 8477),
    (8484, 8484), (8486, 8486), (8488, 8488), (8490, 8493), (8495, 8505), (8508, 8511),
    (8517, 8521), (8526, 8526), (8528, 8585), (9312, 9371), (9450, 9471), (10102, 10131),
    (11264, 11492), (11499, 11502), (11506, 11507), (11517, 11517), (11520, 11557),
    (11559, 11559), (11565, 11565), (11568, 11623), (11631, 11631), (11648, 11670),
    (11680, 11686), (11688, 11694), (11696, 11702), (11704, 11710), (11712, 11718),
    (11720, 11726), (11728, 11734), (11736, 11742), (11823, 11823), (12293, 12295),
    (12321, 12329), (12337, 12341), (12344, 12348), (12353, 12438), (12445, 12447),
    (12449, 12538), (12540, 12543), (12549, 12591), (12593, 12686), (12690, 12693),
    (12704, 12735), (12784, 12799), (12832, 12841), (12872, 12879), (12881, 12895),
    (12928, 12937), (12977, 12991), (13312, 19903), (19968, 42124), (42192, 42237),
    (42240, 42508), (42512, 42539), (42560, 42606), (42623, 42653), (42656, 42735),
    (42775, 42783), (42786, 42888), (42891, 42954), (42960, 42961), (42963, 42963),
    (42965, 42969), (42994, 43009), (43011, 43013), (43015, 43018), (43020, 43042),
    (43056, 43061), (43072, 43123), (43138, 43187), (43216, 43225), (43250, 43255),
    (43259, 43259), (43261, 43262), (43264, 43301), (43312, 43334), (43360, 43388),
    (43396, 43442), (43471, 43481), (43488, 43492), (43494, 43518), (43520, 43560),
    (43584, 43586), (43588, 43595), (43600, 43609), (43616, 43638), (43642, 43642),
    (43646, 43695), (43697, 43697), (43701, 43702), (43705, 43709), (43712, 43712),
    (43714, 43714), (43739, 43741), (43744, 43754), (43762, 43764), (43777, 43782),
    (43785, 43790), (43793, 43798), (43808, 43814), (43816, 43822), (43824, 43866),
    (43868, 43881), (43888, 44002), (44016, 44025), (44032, 55203), (55216, 55238),
    (55243, 55291), (63744, 64109), (64112, 64217), (64256, 64262), (64275, 64279),
    (64285, 64285), (64287, 64296), (64298, 64310), (64312, 64316), (64318, 64318),
    (64320, 64321), (64323, 64324), (64326, 64433), (64467, 64829), (64848, 64911),
    (64914, 64967), (65008, 65019), (65136, 65140), (65142, 65276), (65296, 65305),
    (65313, 65338), (65345, 65370), (65382, 65470), (65474, 65479), (65482, 65487),
    (65490, 65495), (65498, 65500), (65536, 65547), (65549, 65574), (65576, 65594),
    (65596, 65597), (65599, 65613), (65616, 65629), (65664, 65786), (65799, 65843),
    (65856, 65912), (65930, 65931), (66176, 66204), (66208, 66256), (66273, 66299),
    (66304, 66339), (66349, 66378), (66384, 66421), (66432, 66461), (66464, 66499),
    (66504, 66511), (66513, 66517), (66560, 66717), (66720, 66729), (66736, 66771),
    (66776, 66811), (66816, 66855), (66864, 66915), (66928, 66938), (66940, 66954),
    (66956, 66962), (66964, 66965), (66967, 66977), (66979, 66993), (66995, 67001),
    (67003, 67004), (67072, 67382), (67392, 67413), (67424, 67431), (67456, 67461),
    (67463, 67504), (67506, 67514), (67584, 67589), (67592, 67592), (67594, 67637),
    (67639, 67640), (67644, 67644), (67647, 67669), (67672, 67702), (67705, 67742),
    (67751, 67759), (67808, 67826), (67828, 67829), (67835, 67867), (67872, 67897),
    (67968, 68023), (68028, 68047), (68050, 68096), (68112, 68115), (68117, 68119),
    (68121, 68149), (68160, 68168), (68192, 68222), (68224, 68255), (68288, 68295),
    (68297, 68324), (68331, 68335), (68352, 68405), (68416, 68437), (68440, 68466),
    (68472, 68497), (68521, 68527), (68608, 68680), (68736, 68786), (68800, 68850),
    (68858, 68899), (68912, 68921), (69216, 69246), (69248, 69289), (69296, 69297),
    (69376, 69415), (69424, 69445), (69457, 69460), (69488, 69505), (69552, 69579),
    (69600, 69622), (69635, 69687), (69714, 69743), (69745, 69746), (69749, 69749),
    (69763, 69807), (69840, 69864), (69872, 69881), (69891, 69926), (69942, 69951),
    (69956, 69956), (69959, 69959), (69968, 70002), (70006, 70006), (70019, 70066),
    (70081, 70084), (70096, 70106), (70108, 70108), (70113, 70132), (70144, 70161),
    (70163, 70187), (70272, 70278), (70280, 70280), (70282, 70285), (70287, 70301),
    (70303, 70312), (70320, 70366), (70384, 70393), (70405, 70412), (70415, 70416),
    (70419, 70440), (70442, 70448), (70450, 70451), (70453, 70457), (70461, 70461),
    (70480, 70480), (70493, 70497), (70656, 70708), (70727, 70730), (70736, 70745),
    (70751, 70753), (70784, 70831), (70852, 70853), (70855, 70855), (70864, 70873),
    (71040, 71086), (71128, 71131), (71168, 71215), (71236, 71236), (71248, 71257),
    (71296, 71338), (71352, 71352), (71360, 71369), (71424, 71450), (71472, 71483),
    (71488, 71494), (71680, 71723), (71840, 71922), (71935, 71942), (71945, 71945),
    (71948, 71955), (71957, 71958), (71960, 71983), (71999, 71999), (72001, 72001),
    (72016, 72025), (72096, 72103), (72106, 72144), (72161, 72161), (72163, 72163),
    (72192, 72192), (72203, 72242), (72250, 72250), (72272, 72272), (72284, 72329),
    (72349, 72349), (72368, 72440), (72704, 72712), (72714, 72750), (72768, 72768),
    (72784, 72812), (72818, 72847), (72960, 72966), (72968, 72969), (72971, 73008),
    (73030, 73030), (73040, 73049), (73056, 73061), (73063, 73064), (73066, 73097),
    (73112, 73112), (73120, 73129), (73440, 73458), (73648, 73648), (73664, 73684),
    (73728, 74649), (74752, 74862), (74880, 75075), (77712, 77808), (77824, 78894),
    (82944, 83526), (92160, 92728), (92736, 92766), (92768, 92777), (92784, 92862),
    (92864, 92873), (92880, 92909), (92928, 92975), (92992, 92995), (93008, 93017),
    (93019, 93025), (93027, 93047), (93053, 93071), (93760, 93846), (93952, 94026),
    (94032, 94032), (94099, 94111), (94176, 94177), (94179, 94179), (94208, 100343),
    (100352, 101589), (101632, 101640), (110576, 110579), (110581, 110587), (110589, 110590),
    (110592, 110882), (110928, 110930), (110948, 110951), (110960, 111355), (113664, 113770),
    (113776, 113788), (113792, 113800), (113808, 113817), (119520, 119539), (119648, 119672),
    (119808, 119892), (119894, 119964), (119966, 119967), (119970, 119970), (119973, 119974),
    (119977, 119980), (119982, 119993), (119995, 119995), (119997, 120003), (120005, 120069),
    (120071, 120074), (120077, 120084), (120086, 120092), (120094, 120121), (120123, 120126),
    (120128, 120132), (120134, 120134), (120138, 120144), (120146, 120485), (120488, 120512),
    (120514, 120538), (120540, 120570), (120572, 120596), (120598, 120628), (120630, 120654),
    (120656, 120686), (120688, 120712), (120714, 120744), (120746, 120770), (120772, 120779),
    (120782, 120831), (122624, 122654), (123136, 123180), (123191, 123197), (123200, 123209),
    (123214, 123214), (123536, 123565), (123584, 123627), (123632, 123641), (124896, 124902),
    (124904, 124907), (124909, 124910), (124912, 124926), (124928, 125124), (125127, 125135),
    (125184, 125251), (125259, 125259), (125264, 125273), (126065, 126123), (126125, 126127),
    (126129, 126132), (126209, 126253), (126255, 126269), (126464, 126467), (126469, 126495),
    (126497, 126498), (126500, 126500), (126503, 126503), (126505, 126514), (126516, 126519),
    (126521, 126521), (126523, 126523), (126530, 126530), (126535, 126535), (126537, 126537),
    (126539, 126539), (126541, 126543), (126545, 126546), (126548, 126548), (126551, 126551),
    (126553, 126553), (126555, 126555), (126557, 126557), (126559, 126559), (126561, 126562),
    (126564, 126564), (126567, 126570), (126572, 126578), (126580, 126583), (126585, 126588),
    (126590, 126590), (126592, 126601), (126603, 126619), (126625, 126627), (126629, 126633),
    (126635, 126651), (127232, 127244), (130032, 130041), (131072, 173791), (173824, 177976),
    (177984, 178205), (178208, 183969), (183984, 191456), (194560, 195101), (196608, 201546)  ]"

definition is_word :: "nat \<Rightarrow> bool" where
  "is_word c = list_ex (\<lambda>(lo, hi). lo \<le> c \<and> c \<le> hi) word_ranges"

text \<open>
  Comparison of an ASCII pattern character \<open>p\<close> with a code point \<open>c\<close> of the subject
  under \<open>re.I\<close>. The engine lower-cases \<open>c\<close> and accepts it when the result is the
  lower-cased pattern character or one of the characters that share its upper case. For
  an ASCII letter this accepts its two ASCII forms and, besides, \<open>U+0130\<close> (capital I
  with dot above) and \<open>U+0131\<close> (dotless i) for the letter i, \<open>U+017F\<close> (long s) for the
  letter s, and \<open>U+212A\<close> (Kelvin sign) for the letter k; any other ASCII character is
  accepted as itself only.
\<close>

definition ascii_lower :: "nat \<Rightarrow> nat" where
  "ascii_lower n = (if 65 \<le> n \<and> n \<le> 90 then n + 32 else n)"

definition ignorecase_eq :: "char \<Rightarrow> nat \<Rightarrow> bool" where
  "ignorecase_eq p c =
     (let l = ascii_lower (of_char p) in
        ascii_lower c = l
      \<or> (l = 105 \<and> (c = 0x130 \<or> c = 0x131))
      \<or> (l = 115 \<and> c = 0x17F)
      \<or> (l = 107 \<and> c = 0x212A))"

text \<open>
  The fragment of regular expressions that \<open>SQL_BLOCK\<close> is written in, with ASCII
  literals, matched the way a backtracking engine does under \<open>re.I\<close>: \<open>rmatch r s i\<close>
  lists the positions at which a match of \<open>r\<close> starting at position \<open>i\<close> of \<open>s\<close> can
  end. \<open>\b\<close> holds where exactly one of the two neighbouring positions holds a word
  character.
\<close>

datatype regex =
    Literal string
  | WordBoundary
  | Alternation "regex list"
  | Sequence "regex list"

fun lit_match :: "string \<Rightarrow> unicode \<Rightarrow> bool" where
  "lit_match [] cs = True"
| "lit_match (p # ps) [] = False"
| "lit_match (p # ps) (c # cs) = (ignorecase_eq p c \<and> lit_match ps cs)"

definition at_boundary :: "unicode \<Rightarrow> nat \<Rightarrow> bool" where
  "at_boundary s i =
     ((0 < i \<and> is_word (s ! (i - 1))) \<noteq> (i < length s \<and> is_word (s ! i)))"

fun rmatch :: "regex \<Rightarrow> unicode \<Rightarrow> nat \<Rightarrow> nat list" where
  "rmatch (Literal t) s i = (if lit_match t (drop i s) then [i + length t] else [])"
| "rmatch WordBoundary s i = (if at_boundary s i then [i] else [])"
| "rmatch (Alternation rs) s i = concat (map (\<lambda>r. rmatch r s i) rs)"
| "rmatch (Sequence rs) s i = foldl (\<lambda>ps r. concat (map (rmatch r s) ps)) [i] rs"

text \<open>\<open>pattern.search(s)\<close> is truthy when a match starts at some position.\<close>

definition re_search :: "regex \<Rightarrow> unicode \<Rightarrow> bool" where
  "re_search r s = list_ex (\<lambda>i. rmatch r s i \<noteq> []) [0..<Suc (length s)]"

definition SQL_BLOCK :: regex where
  "SQL_BLOCK = Sequence [WordBoundary,
     Alternation [Literal ''INSERT'', Literal ''UPDATE'', Literal ''DELETE'', Literal ''DROP'',
                  Literal ''ALTER'', Literal ''TRUNCATE'', Literal ''CREATE'', Literal ''MSCK'',
                  Literal ''GRANT'', Literal ''REVOKE''],
     WordBoundary]"

text \<open>
  \<open>athena_query\<close>, given the backend call \<open>start_query_execution\<close> (a fault when the
  client raises, the \<open>QueryExecutionId\<close> otherwise). The second component lists the
  query strings handed to the backend.
\<close>

definition athena_query ::
  "(unicode \<Rightarrow> string + string) \<Rightarrow> unicode \<Rightarrow> (error + string) \<times> unicode list" where
  "athena_query start_query_execution sql =
     (if re_search SQL_BLOCK sql then (Inl (ValueError ''Only SELECT/EXPLAIN allowed.''), [])
      else (case start_query_execution sql of
              Inl f \<Rightarrow> (Inl (BackendError f), [sql])
            | Inr qid \<Rightarrow> (Inr qid, [sql])))"

text \<open>
  What the specification calls a blocked statement, stated without the pattern: one of
  the ten tokens occurs at some position, letter for letter once the letters of the
  statement are put in upper case, with no word character directly before or after
  the occurrence. The way of putting a code point in upper case is a parameter:
  \<open>ascii_upper\<close> changes the letters a to z and nothing else, which is letter case as
  SQL has it; \<open>folded_upper\<close> moreover takes \<open>U+0130\<close> and \<open>U+0131\<close> to I, \<open>U+017F\<close> to S
  and \<open>U+212A\<close> to K.
\<close>

definition blocked_tokens :: "string list" where
  "blocked_tokens = [''INSERT'', ''UPDATE'', ''DELETE'', ''DROP'', ''ALTER'', ''TRUNCATE'',
                     ''CREATE'', ''MSCK'', ''GRANT'', ''REVOKE'']"

definition ascii_upper :: "nat \<Rightarrow> nat" where
  "ascii_upper n = (if 97 \<le> n \<and> n \<le> 122 then n - 32 else n)"

definition folded_upper :: "nat \<Rightarrow> nat" where
  "folded_upper n =
     (if n = 0x130 \<or> n = 0x131 then 73
      else if n = 0x17F then 83
      else if n = 0x212A then 75
      else ascii_upper n)"

definition whole_word_at :: "(nat \<Rightarrow> nat) \<Rightarrow> string \<Rightarrow> unicode \<Rightarrow> nat \<Rightarrow> bool" where
  "whole_word_at upper tok s i =
     (i + length tok \<le> length s
      \<and> map upper (take (length tok) (drop i s)) = codes tok
      \<and> (i = 0 \<or> \<not> is_word (s ! (i - 1)))
      \<and> (i + length tok = length s \<or> \<not> is_word (s ! (i + length tok))))"

definition mentions :: "(nat \<Rightarrow> nat) \<Rightarrow> unicode \<Rightarrow> bool" where
  "mentions upper s =
     list_ex (\<lambda>tok. list_ex (whole_word_at upper tok s) [0..<Suc (length s)]) blocked_tokens"

definition mentions_blocked :: "unicode \<Rightarrow> bool" where
  "mentions_blocked s = mentions ascii_upper s"

definition mentions_folded :: "unicode \<Rightarrow> bool" where
  "mentions_folded s = mentions folded_upper s"

text \<open>The capital letters A to Z, of which the tokens are made.\<close>

definition upper_ascii :: "char \<Rightarrow> bool" where
  "upper_ascii p = (65 \<le> (of_char p :: nat) \<and> (of_char p :: nat) \<le> 90)"

text \<open>
  Three statements: one with a token in mixed ASCII case, one in which a token is a
  proper part of a word, and \<open>select 1 as in\<close>\<open>U+017F\<close>\<open>ert\<close>, written with a long s.
\<close>

definition drop_statement :: unicode where
  "drop_statement = codes ''a;DrOp t''"

definition dropped_statement :: unicode where
  "dropped_statement = codes ''dropped''"

definition long_s_statement :: unicode where
  "long_s_statement = codes ''select 1 as in'' @ [0x17F] @ codes ''ert''"

section \<open>JSON values and the result extractor (\<open>llm_bot.extract_tool_result\<close>)\<close>

text \<open>
  The values \<open>json.loads\<close> produces and \<open>json.dumps\<close> accepts. An object is the list of
  its key/value pairs in insertion order, each key once. Numbers with a fraction or an
  exponent are not represented.
\<close>

datatype json =
    JNull
  | JBool bool
  | JInt int
  | JStr string
  | JArr "json list"
  | JObj "(string \<times> json) list"

text \<open>
  A call of \<open>json.loads\<close> ends in one of three ways, which the handlers of the extractor
  tell apart: it returns the decoded value, it raises \<open>json.JSONDecodeError\<close>, or it
  raises another exception (\<open>ValueError\<close> for an integer literal beyond the
  interpreter's digit limit, \<open>RecursionError\<close> for nesting too deep). The two failures
  carry \<open>str(e)\<close>.
\<close>

datatype decoding = Decoded json | DecodeError string | OtherError string

text \<open>
  \<open>json.loads\<close> itself is a parameter of the extractor and of the orchestrator: any
  function from text to such an outcome. General statements hold for every such
  function. For statements about particular payloads, \<open>json_loads\<close> below decodes the
  JSON grammar of objects, arrays, strings with the single-character escapes, integers
  and the three literals; it answers everything else with a decode error, whose message
  is not modelled, and it knows no limit on digits or nesting.
\<close>

fun dict_set :: "string \<Rightarrow> json \<Rightarrow> (string \<times> json) list \<Rightarrow> (string \<times> json) list" where
  "dict_set k v [] = [(k, v)]"
| "dict_set k v ((k', v') # kvs) = (if k = k' then (k, v) # kvs else (k', v') # dict_set k v kvs)"

fun skip_ws :: "string \<Rightarrow> string" where
  "skip_ws [] = []"
| "skip_ws (c # cs) =
     (if c = CHR '' '' \<or> c = CHR 0x09 \<or> c = CHR 0x0A \<or> c = CHR 0x0D then skip_ws cs else c # cs)"

fun scan_string :: "string \<Rightarrow> string \<Rightarrow> (string \<times> string) option" where
  "scan_string acc [] = None"
| "scan_string acc (c # cs) =
     (if c = CHR 0x22 then Some (rev acc, cs)
      else if c = CHR 0x5C then
        (case cs of
           [] \<Rightarrow> None
         | e # rest \<Rightarrow>
             if e = CHR 0x22 \<or> e = CHR 0x5C \<or> e = CHR ''/'' then scan_string (e # acc) rest
             else if e = CHR ''n'' then scan_string (CHR 0x0A # acc) rest
             else if e = CHR ''t'' then scan_string (CHR 0x09 # acc) rest
             else if e = CHR ''r'' then scan_string (CHR 0x0D # acc) rest
             else if e = CHR ''b'' then scan_string (CHR 0x08 # acc) rest
             else if e = CHR ''f'' then scan_string (CHR 0x0C # acc) rest
             else None)
      else if (of_char c :: nat) < 32 then None
      else scan_string (c # acc) cs)"

definition is_digit :: "char \<Rightarrow> bool" where
  "is_digit c = (48 \<le> (of_char c :: nat) \<and> (of_char c :: nat) \<le> 57)"

fun scan_digits :: "nat \<Rightarrow> string \<Rightarrow> nat \<times> string" where
  "scan_digits acc [] = (acc, [])"
| "scan_digits acc (c # cs) =
     (if is_digit c then scan_digits (10 * acc + (of_char c - 48)) cs else (acc, c # cs))"

definition scan_int :: "string \<Rightarrow> (int \<times> string) option" where
  "scan_int s =
     (case s of
        [] \<Rightarrow> None
      | c # cs \<Rightarrow>
          if c = CHR ''-'' then
            (case cs of [] \<Rightarrow> None
             | d # ds \<Rightarrow> if is_digit d \<and> (d \<noteq> CHR ''0'' \<or> ds = [] \<or> \<not> is_digit (hd ds))
                        then (case scan_digits 0 cs of (n, rest) \<Rightarrow> Some (- int n, rest)) else None)
          else if is_digit c \<and> (c \<noteq> CHR ''0'' \<or> cs = [] \<or> \<not> is_digit (hd cs))
            then (case scan_digits 0 s of (n, rest) \<Rightarrow> Some (int n, rest))
          else None)"

fun strip_prefix :: "string \<Rightarrow> string \<Rightarrow> string option" where
  "strip_prefix [] s = Some s"
| "strip_prefix (p # ps) [] = None"
| "strip_prefix (p # ps) (c # cs) = (if p = c then strip_prefix ps cs else None)"

text \<open>The first argument bounds the nesting and the number of members still to read.\<close>

fun parse_value :: "nat \<Rightarrow> string \<Rightarrow> (json \<times> string) option"
and parse_elements :: "nat \<Rightarrow> json list \<Rightarrow> string \<Rightarrow> (json \<times> string) option"
and parse_members :: "nat \<Rightarrow> (string \<times> json) list \<Rightarrow> string \<Rightarrow> (json \<times> string) option"
where
  "parse_value 0 s = None"
| "parse_value (Suc n) s =
     (case s of
        [] \<Rightarrow> None
      | c # cs \<Rightarrow>
          if c = CHR 0x22 then
            (case scan_string [] cs of None \<Rightarrow> None | Some (t, rest) \<Rightarrow> Some (JStr t, rest))
          else if c = CHR ''{'' then
            (case skip_ws cs of
               [] \<Rightarrow> None
             | d # ds \<Rightarrow> if d = CHR ''}'' then Some (JObj [], ds) else parse_members n [] (d # ds))
          else if c = CHR ''['' then
            (case skip_ws cs of
               [] \<Rightarrow> None
             | d # ds \<Rightarrow> if d = CHR '']'' then Some (JArr [], ds) else parse_elements n [] (d # ds))
          else if c = CHR ''n'' then
            (case strip_prefix ''ull'' cs of None \<Rightarrow> None | Some rest \<Rightarrow> Some (JNull, rest))
          else if c = CHR ''t'' then
            (case strip_prefix ''rue'' cs of None \<Rightarrow> None | Some rest \<Rightarrow> Some (JBool True, rest))
          else if c = CHR ''f'' then
            (case strip_prefix ''alse'' cs of None \<Rightarrow> None | Some rest \<Rightarrow> Some (JBool False, rest))
          else
            (case scan_int s of None \<Rightarrow> None | Some (i, rest) \<Rightarrow> Some (JInt i, rest)))"
| "parse_elements 0 acc s = None"
| "parse_elements (Suc n) acc s =
     (case parse_value n s of
        None \<Rightarrow> None
      | Some (v, rest) \<Rightarrow>
          (case skip_ws rest of
             [] \<Rightarrow> None
           | d # ds \<Rightarrow>
               if d = CHR '','' then parse_elements n (acc @ [v]) (skip_ws ds)
               else if d = CHR '']'' then Some (JArr (acc @ [v]), ds)
               else None))"
| "parse_members 0 acc s = None"
| "parse_members (Suc n) acc s =
     (case s of
        [] \<Rightarrow> None
      | q # qs \<Rightarrow>
          if q \<noteq> CHR 0x22 then None
          else
            (case scan_string [] qs of
               None \<Rightarrow> None
             | Some (k, rest) \<Rightarrow>
                 (case skip_ws rest of
                    [] \<Rightarrow> None
                  | c # cs \<Rightarrow>
                      if c \<noteq> CHR '':'' then None
                      else
                        (case parse_value n (skip_ws cs) of
                           None \<Rightarrow> None
                         | Some (v, rest') \<Rightarrow>
                             (case skip_ws rest' of
                                [] \<Rightarrow> None
                              | d # ds \<Rightarrow>
                                  if d = CHR '','' then parse_members n (dict_set k v acc) (skip_ws ds)
                                  else if d = CHR ''}'' then Some (JObj (dict_set k v acc), ds)
                                  else None)))))"

definition json_loads :: "string \<Rightarrow> decoding" where
  "json_loads s =
     (case parse_value (Suc (length s)) (skip_ws s) of
        None \<Rightarrow> DecodeError ''JSONDecodeError''
      | Some (v, rest) \<Rightarrow>
          if skip_ws rest = [] then Decoded v else DecodeError ''JSONDecodeError'')"

text \<open>
  \<open>json.dumps\<close> is a parameter of the orchestrator in the same way. \<open>json_dumps\<close> is the
  encoder with Python's defaults on the values above: \<open>", "\<close> and \<open>": "\<close> as
  separators, and every character outside the printable ASCII range escaped.
\<close>

definition hex_digit :: "nat \<Rightarrow> char" where
  "hex_digit d = ''0123456789abcdef'' ! d"

definition escape_char :: "char \<Rightarrow> string" where
  "escape_char c =
     (if c = CHR 0x22 then [CHR 0x5C, CHR 0x22]
      else if c = CHR 0x5C then [CHR 0x5C, CHR 0x5C]
      else if c = CHR 0x0A then [CHR 0x5C, CHR ''n'']
      else if c = CHR 0x0D then [CHR 0x5C, CHR ''r'']
      else if c = CHR 0x09 then [CHR 0x5C, CHR ''t'']
      else if c = CHR 0x08 then [CHR 0x5C, CHR ''b'']
      else if c = CHR 0x0C then [CHR 0x5C, CHR ''f'']
      else if 32 \<le> (of_char c :: nat) \<and> (of_char c :: nat) \<le> 126 then [c]
      else [CHR 0x5C, CHR ''u'', CHR ''0'', CHR ''0'',
            hex_digit (of_char c div 16), hex_digit (of_char c mod 16)])"

definition escaped :: "string \<Rightarrow> string" where
  "escaped s = concat (map escape_char s)"

definition quoted :: "string \<Rightarrow> string" where
  "quoted s = CHR 0x22 # s @ [CHR 0x22]"

fun show_nat :: "nat \<Rightarrow> string" where
  "show_nat n = (if n < 10 then [hex_digit n] else show_nat (n div 10) @ [hex_digit (n mod 10)])"

declare show_nat.simps [simp del]

definition show_int :: "int \<Rightarrow> string" where
  "show_int i = (if i < 0 then CHR ''-'' # show_nat (nat (- i)) else show_nat (nat i))"

fun join_with :: "string \<Rightarrow> string list \<Rightarrow> string" where
  "join_with sep [] = []"
| "join_with sep [x] = x"
| "join_with sep (x # y # zs) = x @ sep @ join_with sep (y # zs)"

primrec json_dumps :: "json \<Rightarrow> string"
  and dumps_elements :: "json list \<Rightarrow> string list"
  and dumps_members :: "(string \<times> json) list \<Rightarrow> string list"
  and dumps_member :: "string \<times> json \<Rightarrow> string"
where
  "json_dumps JNull = ''null''"
| "json_dumps (JBool b) = (if b then ''true'' else ''false'')"
| "json_dumps (JInt i) = show_int i"
| "json_dumps (JStr s) = quoted (escaped s)"
| "json_dumps (JArr vs) = ''['' @ join_with '', '' (dumps_elements vs) @ '']''"
| "json_dumps (JObj kvs) = ''{'' @ join_with '', '' (dumps_members kvs) @ ''}''"
| "dumps_elements [] = []"
| "dumps_elements (v # vs) = json_dumps v # dumps_elements vs"
| "dumps_members [] = []"
| "dumps_members (kv # kvs) = dumps_member kv # dumps_members kvs"
| "dumps_member (k, v) = quoted (escaped k) @ '': '' @ json_dumps v"

declare json_dumps.simps [simp del]

text \<open>
  A content item of a tool response, as the extractor probes it with \<open>hasattr\<close>: the
  outcome of \<open>item.model_dump_json()\<close> when the method exists (the message of the
  exception it raises, or the text it returns), the \<open>json\<close> attribute (a method, with
  the outcome of calling it, or a plain value), and the \<open>text\<close> attribute. The response
  itself is its \<open>content\<close> list, or \<open>None\<close> when the attribute is missing.
\<close>

datatype json_attr = NoJson | JsonMethod "string + json" | JsonProperty json

record content_item =
  model_dump_json :: "(string + string) option"
  json_attribute :: json_attr
  text_attr :: "string option"

text \<open>Python truthiness of a JSON value; a bound method is always truthy.\<close>

fun truthy :: "json \<Rightarrow> bool" where
  "truthy JNull = False"
| "truthy (JBool b) = b"
| "truthy (JInt i) = (i \<noteq> 0)"
| "truthy (JStr s) = (s \<noteq> [])"
| "truthy (JArr vs) = (vs \<noteq> [])"
| "truthy (JObj kvs) = (kvs \<noteq> [])"

text \<open>
  The branch \<open>hasattr(item, 'json') and item.json\<close>: when it is taken, what it returns
  (\<open>Inr\<close>) or raises (\<open>Inl\<close>).
\<close>

definition json_present :: "json_attr \<Rightarrow> (string + json) option" where
  "json_present a =
     (case a of NoJson \<Rightarrow> None
      | JsonMethod r \<Rightarrow> Some r
      | JsonProperty v \<Rightarrow> if truthy v then Some (Inr v) else None)"

text \<open>
  \<open>isinstance(v, dict) and 'text' in v and isinstance(v['text'], str)\<close>, giving the
  string.
\<close>

definition text_field :: "json \<Rightarrow> string option" where
  "text_field v =
     (case v of
        JObj kvs \<Rightarrow> (case map_of kvs ''text'' of Some (JStr t) \<Rightarrow> Some t | _ \<Rightarrow> None)
      | _ \<Rightarrow> None)"

text \<open>
  The body of the outer \<open>try\<close>: the loop over the items, which returns at the first item
  that has a usable attribute. \<open>Inl\<close> is an exception that escapes the body. In the
  \<open>model_dump_json\<close> branch no handler covers the method call and the first
  \<open>json.loads\<close>, and the handler around the second one catches \<open>JSONDecodeError\<close> only.
  In the \<open>text\<close> branch the handler around the second \<open>json.loads\<close> catches
  \<open>JSONDecodeError\<close> only, and the two handlers around the first one (\<open>JSONDecodeError\<close>,
  then \<open>Exception\<close>) catch everything else raised inside, both returning the text.
\<close>

fun extract_items :: "(string \<Rightarrow> decoding) \<Rightarrow> content_item list \<Rightarrow> string + json" where
  "extract_items decode [] = Inr (JObj [(''error'', JStr ''No content found'')])"
| "extract_items decode (item # items) =
     (case model_dump_json item of
        Some (Inl e) \<Rightarrow> Inl e
      | Some (Inr dumped) \<Rightarrow>
          (case decode dumped of
             DecodeError e \<Rightarrow> Inl e
           | OtherError e \<Rightarrow> Inl e
           | Decoded result \<Rightarrow>
               (case text_field result of
                  Some t \<Rightarrow>
                    (case decode t of
                       Decoded inner_parsed \<Rightarrow> Inr inner_parsed
                     | DecodeError e \<Rightarrow> Inr result
                     | OtherError e \<Rightarrow> Inl e)
                | None \<Rightarrow> Inr result))
      | None \<Rightarrow>
          (case json_present (json_attribute item) of
             Some r \<Rightarrow> r
           | None \<Rightarrow>
               (case text_attr item of
                  None \<Rightarrow> extract_items decode items
                | Some t \<Rightarrow>
                    if t = [] then extract_items decode items
                    else
                      (case decode t of
                         DecodeError e \<Rightarrow> Inr (JObj [(''text'', JStr t)])
                       | OtherError e \<Rightarrow> Inr (JObj [(''text'', JStr t)])
                       | Decoded parsed \<Rightarrow>
                           (case text_field parsed of
                              Some t' \<Rightarrow>
                                (case decode t' of
                                   Decoded inner_parsed \<Rightarrow> Inr inner_parsed
                                 | DecodeError e \<Rightarrow> Inr parsed
                                 | OtherError e \<Rightarrow> Inr (JObj [(''text'', JStr t)]))
                            | None \<Rightarrow> Inr parsed)))))"

text \<open>
  The whole function: the outer handler turns an escaping exception into
  \<open>{"error": str(e)}\<close>. The result keeps the sum type so that "does not raise" is a
  statement about it.
\<close>

definition extract_tool_result ::
  "(string \<Rightarrow> decoding) \<Rightarrow> content_item list option \<Rightarrow> string + json" where
  "extract_tool_result decode mcp_result =
     (case (case mcp_result of
              None \<Rightarrow> Inr (JObj [(''error'', JStr ''No content found'')])
            | Some items \<Rightarrow> extract_items decode items) of
        Inl e \<Rightarrow> Inr (JObj [(''error'', JStr e)])
      | Inr v \<Rightarrow> Inr v)"

text \<open>
  The specification's description of the decoding, in its own words: given a decoded
  outer value, look for a string \<open>text\<close> field, try to decode it, prefer the inner
  value when that succeeds, and fall back to the outer value on a decode failure. The
  description is silent about an exception of the decoder that is not a decode failure:
  that is the result \<open>Inl\<close>, with the message.
\<close>

definition decode_nested :: "(string \<Rightarrow> decoding) \<Rightarrow> json \<Rightarrow> string + json" where
  "decode_nested decode outer =
     (case text_field outer of
        None \<Rightarrow> Inr outer
      | Some t \<Rightarrow>
          (case decode t of
             Decoded inner \<Rightarrow> Inr inner
           | DecodeError e \<Rightarrow> Inr outer
           | OtherError e \<Rightarrow> Inl e))"

text \<open>
  Concrete payloads. \<open>inner_payload\<close> is the text \<open>{"a":1}\<close> and \<open>wrapped_payload\<close> the
  text \<open>{"text": "{\"a\":1}"}\<close>; \<open>boom_payload\<close> is \<open>{"error": "boom"}\<close>, what
  \<open>json.dumps\<close> makes of the error \<open>boom\<close>. \<open>text_only t\<close> is an item that has nothing but the text
  \<open>t\<close>; \<open>text_content t\<close> is a text item of the tool protocol, which serialises itself
  with its \<open>type\<close>, \<open>text\<close> and \<open>annotations\<close> fields.
\<close>

definition boom_payload :: string where
  "boom_payload = ''{'' @ quoted ''error'' @ '': '' @ quoted ''boom'' @ ''}''"

definition inner_payload :: string where
  "inner_payload = ''{'' @ quoted ''a'' @ '':1}''"

definition wrapped_payload :: string where
  "wrapped_payload = ''{'' @ quoted ''text'' @ '': '' @ quoted (escaped inner_payload) @ ''}''"

definition text_only :: "string \<Rightarrow> content_item" where
  "text_only t = \<lparr>model_dump_json = None, json_attribute = NoJson, text_attr = Some t\<rparr>"

definition text_content_dump :: "string \<Rightarrow> string" where
  "text_content_dump t =
     ''{'' @ quoted ''type'' @ '':'' @ quoted ''text'' @ '','' @ quoted ''text'' @ '':''
       @ quoted (escaped t) @ '','' @ quoted ''annotations'' @ '':null}''"

definition text_content :: "string \<Rightarrow> content_item" where
  "text_content t = \<lparr>model_dump_json = Some (Inr (text_content_dump t)),
                     json_attribute = JsonMethod (Inr (JStr (text_content_dump t))),
                     text_attr = Some t\<rparr>"

section \<open>The orchestrator (\<open>llm_bot.call_llm_with_tools\<close>)\<close>

text \<open>
  A content block of a model response, as the loop distinguishes them: a block with a
  \<open>text\<close> attribute, a block with \<open>name\<close> and \<open>input\<close> (and \<open>id\<close>) attributes, and
  anything else.
\<close>

datatype block = TextBlock string | ToolUseBlock string string json | OtherBlock

text \<open>
  The conversation: a message is a dictionary with a role and a content that is either
  a plain string (the question the handlers pass) or a list of parts. A tool result
  carries the id of the tool use it answers and the text \<open>json.dumps\<close> made of the
  outcome.
\<close>

datatype part = Text string | ToolUse string string json | ToolResult string string

datatype role = User | Assistant

datatype msg_content = Plain string | Parts "part list"

record message =
  role :: role
  content :: msg_content

text \<open>
  A model call either raises (with \<open>str(e)\<close>) or answers with its content blocks. The
  arguments of \<open>client.messages.create\<close> that vary are the messages, the system prompt and
  the tool definitions (absent in the final call).
\<close>

datatype reply = Failed string | Response "block list"

type_synonym tool_definition = "string \<times> string \<times> json"

record request =
  messages :: "message list"
  system :: string
  tools :: "tool_definition list option"

text \<open>
  The world outside the function. \<open>start_session\<close> is the outcome of everything before
  the loop: starting the tool server with \<open>stdio_client\<close>, opening the \<open>ClientSession\<close>,
  \<open>session.initialize()\<close> and \<open>session.list_tools()\<close>; it is the message of the exception
  one of them raises, or the tool definitions built from the listing. Then the reply to
  the \<open>k\<close>-th model call, the outcome of the \<open>k\<close>-th \<open>session.call_tool\<close> (the message
  of the exception it raises, or the response), \<open>json.loads\<close> and \<open>json.dumps\<close>. Every
  one of these calls comes back, with a value or an exception; a session that has
  started stays up until the function leaves it, and leaving it raises nothing of its
  own. An exception that leaves the loop leaves the function; whether the context
  managers of the session wrap it on the way out is not modelled.
\<close>

record world =
  start_session :: "string + tool_definition list"
  llm :: "nat \<Rightarrow> request \<Rightarrow> reply"
  call_tool :: "nat \<Rightarrow> string \<Rightarrow> json \<Rightarrow> string + content_item list option"
  loads :: "string \<Rightarrow> decoding"
  dumps :: "json \<Rightarrow> string"

text \<open>
  How a run ends: it returns a string or an exception leaves it. \<open>SessionError\<close> is an
  exception of the session start, which no handler covers; \<open>ApiError\<close> is the exception
  of a model call, re-raised; \<open>AttributeError\<close> is what \<open>content.get\<close> raises on a
  character of a plain-string content.
\<close>

datatype failure = SessionError string | ApiError string | AttributeError string

datatype outcome = Returned string | Raised failure

text \<open>
  The state of a run: the conversation, and two logs kept for the statements below, the
  model calls issued and the tool calls dispatched (id, name, input), both in order.
\<close>

record run_state =
  current_messages :: "message list"
  requests :: "request list"
  dispatched :: "(string \<times> string \<times> json) list"

text \<open>\<open>"\n".join(xs)\<close>.\<close>

fun join_lines :: "string list \<Rightarrow> string" where
  "join_lines [] = []"
| "join_lines [x] = x"
| "join_lines (x # y # zs) = x @ CHR 0x0A # join_lines (y # zs)"

text \<open>
  The classification \<open>"429" in str(e) or "rate limit" in str(e).lower()\<close>. The message
  is a text of 8-bit characters; the second test compares its code points, lower-cased
  by \<open>tolower\<close> as \<open>str.lower\<close> does below 256.
\<close>

definition tolower :: "nat \<Rightarrow> nat" where
  "tolower n =
     (if (65 \<le> n \<and> n \<le> 90) \<or> (192 \<le> n \<and> n \<le> 214) \<or> (216 \<le> n \<and> n \<le> 222)
      then n + 32 else n)"

fun starts_with :: "'a list \<Rightarrow> 'a list \<Rightarrow> bool" where
  "starts_with [] ys = True"
| "starts_with (x # xs) [] = False"
| "starts_with (x # xs) (y # ys) = (x = y \<and> starts_with xs ys)"

fun contains :: "'a list \<Rightarrow> 'a list \<Rightarrow> bool" where
  "contains xs [] = (xs = [])"
| "contains xs (y # ys) = (starts_with xs (y # ys) \<or> contains xs ys)"

definition rate_limited :: "string \<Rightarrow> bool" where
  "rate_limited e =
     (contains ''429'' e
      \<or> contains (map of_char ''rate limit'') (map (\<lambda>c. tolower (of_char c)) e))"

definition APOLOGY :: string where
  "APOLOGY = ''I encountered a rate limit while processing your request. Please try again in a moment.''"

definition FALLBACK :: string where
  "FALLBACK = ''I've completed the data analysis. Please check the results above.''"

definition ANALYSIS_PROMPT :: string where
  "ANALYSIS_PROMPT =
     ''Based on the database exploration and queries I've executed, please provide a comprehensive analysis of the Android GAM revenue data. Include:''
     @ CHR 0x0A # ''1. What databases and tables were found''
     @ CHR 0x0A # ''2. What data structure was discovered''
     @ CHR 0x0A # ''3. Any successful query results''
     @ CHR 0x0A # ''4. Challenges encountered with column access''
     @ CHR 0x0A # ''5. Recommendations for accessing the Android revenue data''
     @ CHR 0x0A # CHR 0x0A # ''Please be specific about what was found and what the next steps should be.''"

definition NO_GET :: string where
  "NO_GET = CHR 0x27 # ''str'' @ CHR 0x27 # '' object has no attribute '' @ CHR 0x27 # ''get''
              @ [CHR 0x27]"

text \<open>
  The rate-limit handler's walk over the conversation: the texts of the text parts of
  the assistant messages, in order. Iterating a non-empty plain string yields
  characters, on which \<open>content.get\<close> raises.
\<close>

fun part_texts :: "part list \<Rightarrow> string list" where
  "part_texts [] = []"
| "part_texts (Text t # ps) = t # part_texts ps"
| "part_texts (p # ps) = part_texts ps"

fun salvage :: "message list \<Rightarrow> failure + string list" where
  "salvage [] = Inr []"
| "salvage (msg # msgs) =
     (if role msg = Assistant then
        (case content msg of
           Plain s \<Rightarrow>
             if s = [] then salvage msgs
             else Inl (AttributeError NO_GET)
         | Parts ps \<Rightarrow>
             (case salvage msgs of
                Inl f \<Rightarrow> Inl f
              | Inr text_parts \<Rightarrow> Inr (part_texts ps @ text_parts)))
      else salvage msgs)"

text \<open>
  The loop over \<open>response.content\<close> that builds the assistant message: a non-empty text
  is recorded, the first tool use is recorded and ends the loop (\<open>break\<close>), any other
  block is skipped. The result is the content of the assistant message and the tool use
  found, if any.
\<close>

fun scan_blocks :: "block list \<Rightarrow> part list \<times> (string \<times> string \<times> json) option" where
  "scan_blocks [] = ([], None)"
| "scan_blocks (TextBlock t # bs) =
     (if t \<noteq> [] then (case scan_blocks bs of (ps, tu) \<Rightarrow> (Text t # ps, tu)) else scan_blocks bs)"
| "scan_blocks (ToolUseBlock tid tname tinput # bs) =
     ([ToolUse tid tname tinput], Some (tid, tname, tinput))"
| "scan_blocks (OtherBlock # bs) = scan_blocks bs"

text \<open>The non-empty texts of all blocks of a response.\<close>

fun block_texts :: "block list \<Rightarrow> string list" where
  "block_texts [] = []"
| "block_texts (TextBlock t # bs) = (if t \<noteq> [] then t # block_texts bs else block_texts bs)"
| "block_texts (b # bs) = block_texts bs"

text \<open>
  The \<open>try\<close> around the tool call, as the text that ends up in the tool result: the
  dumped outcome, or the dumped \<open>{"error": str(e)}\<close> of the handler.
\<close>

definition run_tool :: "world \<Rightarrow> nat \<Rightarrow> string \<Rightarrow> json \<Rightarrow> string" where
  "run_tool w k tname tinput =
     (case call_tool w k tname tinput of
        Inl e \<Rightarrow> dumps w (JObj [(''error'', JStr e)])
      | Inr result \<Rightarrow>
          (case extract_tool_result (loads w) result of
             Inl e \<Rightarrow> dumps w (JObj [(''error'', JStr e)])
           | Inr tool_result \<Rightarrow> dumps w tool_result))"

text \<open>
  One iteration of the \<open>for\<close> loop. \<open>Inl\<close> is a \<open>return\<close> or \<open>raise\<close> inside the
  iteration, \<open>Inr\<close> is \<open>continue\<close> with the new state.
\<close>

definition loop_body ::
  "world \<Rightarrow> string \<Rightarrow> tool_definition list \<Rightarrow> run_state \<Rightarrow> (outcome \<times> run_state) + run_state"
where
  "loop_body w system_prompt tool_definitions st =
     (let req = \<lparr>messages = current_messages st, system = system_prompt,
                 tools = Some tool_definitions\<rparr>;
          st1 = st\<lparr>requests := requests st @ [req]\<rparr>
      in case llm w (length (requests st)) req of
           Failed e \<Rightarrow>
             if rate_limited e then
               (case salvage (current_messages st) of
                  Inl f \<Rightarrow> Inl (Raised f, st1)
                | Inr text_parts \<Rightarrow>
                    if text_parts \<noteq> [] then Inl (Returned (join_lines text_parts), st1)
                    else Inl (Returned APOLOGY, st1))
             else Inl (Raised (ApiError e), st1)
         | Response blocks \<Rightarrow>
             (case scan_blocks blocks of
                (assistant_content, None) \<Rightarrow>
                  Inl (Returned (join_lines (block_texts blocks)), st1)
              | (assistant_content, Some (tid, tname, tinput)) \<Rightarrow>
                  Inr (st1\<lparr>current_messages := current_messages st @
                             [\<lparr>role = Assistant, content = Parts assistant_content\<rparr>,
                              \<lparr>role = User, content = Parts
                                 [ToolResult tid
                                    (run_tool w (length (dispatched st)) tname tinput)]\<rparr>],
                           dispatched := dispatched st @ [(tid, tname, tinput)]\<rparr>)))"

text \<open>\<open>for iteration in range(n)\<close>: \<open>Inr\<close> is the loop running out.\<close>

fun for_loop ::
  "world \<Rightarrow> string \<Rightarrow> tool_definition list \<Rightarrow> nat \<Rightarrow> run_state
     \<Rightarrow> (outcome \<times> run_state) + run_state"
where
  "for_loop w system_prompt tool_definitions 0 st = Inr st"
| "for_loop w system_prompt tool_definitions (Suc n) st =
     (case loop_body w system_prompt tool_definitions st of
        Inl done \<Rightarrow> Inl done
      | Inr st' \<Rightarrow> for_loop w system_prompt tool_definitions n st')"

text \<open>
  The code after the loop. Its two searches look at the parts of user messages whose
  content is a list: first for a tool result whose text decodes to an object with one of
  five keys, then, if none was found, for any tool result.
\<close>

definition data_keys :: "string list" where
  "data_keys = [''columns'', ''data'', ''rows'', ''databases'', ''tables'']"

definition keyed_result :: "(string \<Rightarrow> decoding) \<Rightarrow> part \<Rightarrow> bool" where
  "keyed_result decode p =
     (case p of
        ToolResult tid result \<Rightarrow>
          (case decode result of
             Decoded (JObj kvs) \<Rightarrow> list_ex (\<lambda>k. map_of kvs k \<noteq> None) data_keys
           | _ \<Rightarrow> False)
      | _ \<Rightarrow> False)"

definition is_tool_result :: "part \<Rightarrow> bool" where
  "is_tool_result p = (case p of ToolResult tid result \<Rightarrow> True | _ \<Rightarrow> False)"

definition user_parts :: "message \<Rightarrow> part list" where
  "user_parts msg =
     (if role msg = User then (case content msg of Plain s \<Rightarrow> [] | Parts ps \<Rightarrow> ps) else [])"

definition after_loop :: "world \<Rightarrow> string \<Rightarrow> run_state \<Rightarrow> outcome \<times> run_state" where
  "after_loop w system_prompt st =
     (let has_data = list_ex (\<lambda>msg. list_ex (keyed_result (loads w)) (user_parts msg))
                       (current_messages st);
          has_data = (if \<not> has_data
                      then list_ex (\<lambda>msg. list_ex is_tool_result (user_parts msg))
                             (current_messages st)
                      else has_data)
      in if has_data then
           (let msgs = current_messages st @ [\<lparr>role = User, content = Plain ANALYSIS_PROMPT\<rparr>];
                req = \<lparr>messages = msgs, system = system_prompt, tools = None\<rparr>;
                st1 = st\<lparr>current_messages := msgs, requests := requests st @ [req]\<rparr>
            in case llm w (length (requests st)) req of
                 Failed e \<Rightarrow> (Returned FALLBACK, st1)
               | Response blocks \<Rightarrow>
                   if block_texts blocks \<noteq> []
                   then (Returned (join_lines (block_texts blocks)), st1)
                   else (Returned FALLBACK, st1))
         else (Returned FALLBACK, st))"

text \<open>
  The whole function. An exception of the session start leaves it at once, before any
  model call. Otherwise the loop runs from \<open>current_messages = messages.copy()\<close> with
  the tool definitions of the session; \<open>range\<close> of a negative number is empty.
\<close>

definition call_llm_with_tools ::
  "world \<Rightarrow> message list \<Rightarrow> string \<Rightarrow> int \<Rightarrow> outcome \<times> run_state"
where
  "call_llm_with_tools w msgs system_prompt max_iterations =
     (case start_session w of
        Inl e \<Rightarrow>
          (Raised (SessionError e), \<lparr>current_messages = msgs, requests = [], dispatched = []\<rparr>)
      | Inr tool_definitions \<Rightarrow>
          (case for_loop w system_prompt tool_definitions (nat max_iterations)
                  \<lparr>current_messages = msgs, requests = [], dispatched = []\<rparr> of
             Inl done \<Rightarrow> done
           | Inr st \<Rightarrow> after_loop w system_prompt st))"

subsection \<open>Vocabulary of the statements\<close>

text \<open>
  The state a run starts in, the request an iteration sends, and the request of the
  final summarisation call.
\<close>

definition fresh :: "message list \<Rightarrow> run_state" where
  "fresh msgs = \<lparr>current_messages = msgs, requests = [], dispatched = []\<rparr>"

definition the_request :: "string \<Rightarrow> tool_definition list \<Rightarrow> run_state \<Rightarrow> request" where
  "the_request system_prompt tool_definitions st =
     \<lparr>messages = current_messages st, system = system_prompt, tools = Some tool_definitions\<rparr>"

definition summary_request :: "string \<Rightarrow> run_state \<Rightarrow> request" where
  "summary_request system_prompt st =
     \<lparr>messages = current_messages st @ [\<lparr>role = User, content = Plain ANALYSIS_PROMPT\<rparr>],
      system = system_prompt, tools = None\<rparr>"

text \<open>The reply to the last model call of a run, read off the log of its requests.\<close>

definition last_reply :: "world \<Rightarrow> run_state \<Rightarrow> reply" where
  "last_reply w st = llm w (length (requests st) - 1) (last (requests st))"

definition is_tool_use_block :: "block \<Rightarrow> bool" where
  "is_tool_use_block b = (case b of ToolUseBlock tid tname tinput \<Rightarrow> True | _ \<Rightarrow> False)"

text \<open>
  The text parts of the assistant messages of a conversation, and the messages whose
  content is a list of parts (or the empty string).
\<close>

definition assistant_texts :: "message list \<Rightarrow> string list" where
  "assistant_texts msgs =
     concat (map (\<lambda>msg. case content msg of Plain s \<Rightarrow> [] | Parts ps \<Rightarrow> part_texts ps)
               (filter (\<lambda>msg. role msg = Assistant) msgs))"

definition parts_only :: "message \<Rightarrow> bool" where
  "parts_only msg = (case content msg of Plain s \<Rightarrow> s = [] | Parts ps \<Rightarrow> True)"

text \<open>A conversation in which some user message holds a tool result part.\<close>

definition holds_tool_result :: "message list \<Rightarrow> bool" where
  "holds_tool_result msgs =
     (\<exists>msg\<in>set msgs. role msg = User \<and>
        (\<exists>ps tid result. content msg = Parts ps \<and> ToolResult tid result \<in> set ps))"

text \<open>
  The pairing of tool uses and tool results. \<open>answered msgs\<close>: each message that holds
  tool-use parts is directly followed by a user message whose tool-result parts carry
  exactly the ids of those tool uses, one result per use and in the same order.
\<close>

fun tool_use_ids :: "part list \<Rightarrow> string list" where
  "tool_use_ids [] = []"
| "tool_use_ids (ToolUse tid tname tinput # ps) = tid # tool_use_ids ps"
| "tool_use_ids (p # ps) = tool_use_ids ps"

fun tool_result_ids :: "part list \<Rightarrow> string list" where
  "tool_result_ids [] = []"
| "tool_result_ids (ToolResult tid result # ps) = tid # tool_result_ids ps"
| "tool_result_ids (p # ps) = tool_result_ids ps"

definition msg_parts :: "message \<Rightarrow> part list" where
  "msg_parts msg = (case content msg of Plain s \<Rightarrow> [] | Parts ps \<Rightarrow> ps)"

fun answered :: "message list \<Rightarrow> bool" where
  "answered [] = True"
| "answered [m] = (tool_use_ids (msg_parts m) = [])"
| "answered (m # r # ms) =
     (if tool_use_ids (msg_parts m) = [] then answered (r # ms)
      else role r = User \<and> tool_result_ids (msg_parts r) = tool_use_ids (msg_parts m)
           \<and> tool_use_ids (msg_parts r) = [] \<and> answered ms)"

definition count_results :: "message list \<Rightarrow> nat" where
  "count_results msgs = sum_list (map (\<lambda>m. length (tool_result_ids (msg_parts m))) msgs)"

definition count_uses :: "message list \<Rightarrow> nat" where
  "count_uses msgs = sum_list (map (\<lambda>m. length (tool_use_ids (msg_parts m))) msgs)"

text \<open>The invariant of a run that started from the conversation \<open>msgs\<close>.\<close>

definition run_inv :: "message list \<Rightarrow> run_state \<Rightarrow> bool" where
  "run_inv msgs st =
     ((\<exists>suf. current_messages st = msgs @ suf \<and> answered suf
            \<and> count_results suf = length (dispatched st)
            \<and> count_uses suf = length (dispatched st))
      \<and> (\<forall>req\<in>set (requests st). \<exists>suf. messages req = msgs @ suf \<and> answered suf))"

subsection \<open>Concrete worlds\<close>

text \<open>
  A one-message conversation, and six worlds. In \<open>w_two\<close> the session starts with no
  tools listed, the model answers every call that offers tools with a text and two tool
  uses, and a call without tools with a summary; every tool call raises. \<open>w_mute\<close> asks
  for one tool and has nothing to say in the final call. \<open>w_silent\<close> answers with no
  content at all. \<open>w_limited\<close> and \<open>w_down\<close> fail every model call, the first with a
  rate-limit message. In \<open>w_offline\<close> the tool server does not start.
\<close>

definition question :: "message list" where
  "question = [\<lparr>role = User, content = Plain ''How many rows?''\<rparr>]"

definition w_two :: world where
  "w_two = \<lparr>start_session = Inr [],
            llm = (\<lambda>k req. if tools req = None then Response [TextBlock ''summary'']
                     else Response [TextBlock ''look'',
                                    ToolUseBlock ''t1'' ''glue_list_databases'' (JObj []),
                                    ToolUseBlock ''t2'' ''athena_query'' JNull]),
            call_tool = (\<lambda>k tname tinput. Inl ''boom''),
            loads = json_loads,
            dumps = json_dumps\<rparr>"

definition w_mute :: world where
  "w_mute = w_two\<lparr>llm := (\<lambda>k req. if tools req = None then Response []
                     else Response [ToolUseBlock ''t1'' ''glue_list_databases'' (JObj [])])\<rparr>"

definition w_silent :: world where
  "w_silent = w_two\<lparr>llm := (\<lambda>k req. Response [])\<rparr>"

definition w_limited :: world where
  "w_limited = w_two\<lparr>llm := (\<lambda>k req. Failed ''Error code: 429'')\<rparr>"

definition w_down :: world where
  "w_down = w_two\<lparr>llm := (\<lambda>k req. Failed ''overloaded'')\<rparr>"

definition w_offline :: world where
  "w_offline = w_two\<lparr>start_session := Inl ''No such file or directory''\<rparr>"

text \<open>
  Two worlds in which the model asks for a tool while tools are offered and the final
  call, without tools, fails: with an overload message, and with a rate-limit message.
\<close>

definition w_late :: world where
  "w_late = w_two\<lparr>llm := (\<lambda>k req. if tools req = None then Failed ''overloaded''
                     else Response [TextBlock ''look'',
                                    ToolUseBlock ''t1'' ''glue_list_databases'' (JObj [])])\<rparr>"

definition w_late_limited :: world where
  "w_late_limited = w_two\<lparr>llm := (\<lambda>k req. if tools req = None then Failed ''Error code: 429''
                     else Response [TextBlock ''look'',
                                    ToolUseBlock ''t1'' ''glue_list_databases'' (JObj [])])\<rparr>"

definition partial_answer :: "message list" where
  "partial_answer = question @
     [\<lparr>role = Assistant, content = Parts [Text ''Found 3 tables.'', ToolUse ''t0'' ''x'' JNull]\<rparr>,
      \<lparr>role = User, content = Parts [ToolResult ''t0'' ''{}'']\<rparr>,
      \<lparr>role = Assistant, content = Parts [Text ''Querying.'']\<rparr>]"

text \<open>
  Two conversations with an earlier assistant turn: its content is the plain string
  \<open>Hello\<close> in the first, and a list with one empty text part in the second.
\<close>

definition plain_history :: "message list" where
  "plain_history = question @ [\<lparr>role = Assistant, content = Plain ''Hello''\<rparr>]"

definition blank_history :: "message list" where
  "blank_history = question @ [\<lparr>role = Assistant, content = Parts [Text '''']\<rparr>]"

section \<open>Properties of the poller and the result fetcher\<close>

lemma poll_loop_step:
  assumes "goes_on env qid wait_ms max_wait_s k"
  shows "poll_loop env qid wait_ms max_wait_s (clock env 0) k
       = poll_loop env qid wait_ms max_wait_s (clock env 0) (Suc k)"
  using assms
  by (subst poll_loop.simps)
     (auto simp: goes_on_def running_at_def expired_def terminal_def split: sum.splits)

lemma poll_loop_skip:
  assumes "\<forall>j<k. goes_on env qid wait_ms max_wait_s j"
  shows "poll_loop env qid wait_ms max_wait_s (clock env 0) 0
       = poll_loop env qid wait_ms max_wait_s (clock env 0) k"
  using assms
proof (induction k)
  case 0
  show ?case by simp
next
  case (Suc k)
  then have "poll_loop env qid wait_ms max_wait_s (clock env 0) 0
       = poll_loop env qid wait_ms max_wait_s (clock env 0) k" by simp
  also have "\<dots> = poll_loop env qid wait_ms max_wait_s (clock env 0) (Suc k)"
    using Suc.prems by (intro poll_loop_step) auto
  finally show ?case .
qed

lemma poll_loop_failed:
  assumes "get_query_execution env k qid = Inr q" "State q = ''FAILED'' \<or> State q = ''CANCELLED''"
  shows "poll_loop env qid wait_ms max_wait_s start k
       = Some (Inl (RuntimeError (''Athena '' @ State q @ '': '' @
                    (case StateChangeReason q of None \<Rightarrow> [] | Some r \<Rightarrow> r))), Suc k)"
  using assms by (subst poll_loop.simps) auto

lemma poll_loop_succeeded:
  assumes "get_query_execution env k qid = Inr q" "State q = ''SUCCEEDED''"
  shows "poll_loop env qid wait_ms max_wait_s start k = Some (Inr (), Suc k)"
  using assms by (subst poll_loop.simps) auto

lemma poll_loop_expired:
  assumes "running_at env qid k" "expired env max_wait_s k"
  shows "poll_loop env qid wait_ms max_wait_s (clock env 0) k
       = Some (Inl (TimeoutError ''Athena query timed out''), Suc k)"
  using assms
  by (subst poll_loop.simps)
     (auto simp: running_at_def expired_def terminal_def split: sum.splits)

lemma athena_results_poll:
  assumes "\<not> falsy (py_or a b)"
  shows "athena_results env a b max_rows wait_ms max_wait_s =
         (case poll_loop env (the (py_or a b)) wait_ms max_wait_s (clock env 0) 0 of
           None \<Rightarrow> None
         | Some (Inl e, n) \<Rightarrow> Some (Inl e, n)
         | Some (Inr _, n) \<Rightarrow>
             (case get_query_results env (the (py_or a b)) max_rows of
                Inl f \<Rightarrow> Some (Inl (BackendError f), n)
              | Inr rs \<Rightarrow> Some (Inr \<lparr>columns = headers_of rs, rows = data_of rs\<rparr>, n)))"
  using assms by (simp add: athena_results_def Let_def)


lemma env_stuck_first_sleep:
  "poll_loop env_stuck ''q1'' (- 1) 60 (clock env_stuck 0) 0
     = Some (Inl (ValueError ''sleep length must be non-negative''), 1)"
  by (subst poll_loop.simps) (simp add: env_stuck_def sleep_def)

text \<open>
  Claim C6, as stated, fails for a negative poll interval. The job of \<open>env_stuck\<close>
  never reports a terminal state and its clock is past the deadline of 60 seconds at
  the reading of the second iteration; with \<open>wait_ms = -1\<close> the poller does not get
  there: the \<open>time.sleep\<close> of the first iteration raises \<open>ValueError\<close>, and that
  error, not \<open>TimeoutError\<close>, ends the call after one status call.
\<close>

theorem negative_interval_counterexample:
  "athena_results env_stuck (Some ''q1'') None 1000 (- 1) 60
     = Some (Inl (ValueError ''sleep length must be non-negative''), 1)
   \<and> (\<forall>j. running_at env_stuck ''q1'' j)
   \<and> expired env_stuck 60 1
   \<and> ValueError ''sleep length must be non-negative'' \<noteq> TimeoutError ''Athena query timed out''"
proof -
  have "running_at env_stuck ''q1'' j" for j
    by (simp add: env_stuck_def running_at_def terminal_def)
  moreover have "expired env_stuck 60 1"
    by (simp add: env_stuck_def expired_def)
  ultimately show ?thesis
    by (simp add: athena_results_def py_or_def falsy_def env_stuck_first_sleep)
qed

text \<open>
  Claim C6, amended: the sleeps between the polls return, which takes a poll interval
  that is not negative and that the platform can hold. Take a run of \<open>athena_results\<close>
  with a usable query id in which, at each iteration before \<open>k\<close>, the job is still
  running, the deadline has not expired and the sleep returns. If the
  \<open>k\<close>-th status polled is \<open>FAILED\<close> or \<open>CANCELLED\<close>, the poller fails with
  \<open>RuntimeError\<close> whose message ends with the remote \<open>StateChangeReason\<close> (empty when
  absent). If instead the job is still running at \<open>k\<close> and the reading taken at \<open>k\<close> is
  the first to exceed \<open>max_wait_s\<close>, the poller fails with \<open>TimeoutError\<close>, a different
  constructor of the error type, after exactly \<open>k + 1\<close> status calls: the deadline is
  tested at every iteration that polls a non-terminal state.
\<close>

theorem poller_failure_modes:
  "\<not> falsy (py_or a b) \<longrightarrow>
   (\<forall>j<k. running_at env (the (py_or a b)) j \<and> \<not> expired env max_wait_s j
          \<and> sleep env j wait_ms = None) \<longrightarrow>
     (\<forall>q. get_query_execution env k (the (py_or a b)) = Inr q \<longrightarrow>
          (State q = ''FAILED'' \<or> State q = ''CANCELLED'') \<longrightarrow>
          athena_results env a b max_rows wait_ms max_wait_s
            = Some (Inl (RuntimeError (''Athena '' @ State q @ '': '' @
                    (case StateChangeReason q of None \<Rightarrow> [] | Some r \<Rightarrow> r))), Suc k))
   \<and> (running_at env (the (py_or a b)) k \<longrightarrow> expired env max_wait_s k \<longrightarrow>
          athena_results env a b max_rows wait_ms max_wait_s
            = Some (Inl (TimeoutError ''Athena query timed out''), Suc k))"
proof (intro impI conjI allI)
  fix q
  assume h: "\<not> falsy (py_or a b)"
     "\<forall>j<k. running_at env (the (py_or a b)) j \<and> \<not> expired env max_wait_s j
          \<and> sleep env j wait_ms = None"
     and q: "get_query_execution env k (the (py_or a b)) = Inr q"
       "State q = ''FAILED'' \<or> State q = ''CANCELLED''"
  from h(2) have g: "\<forall>j<k. goes_on env (the (py_or a b)) wait_ms max_wait_s j"
    by (simp add: goes_on_def)
  show "athena_results env a b max_rows wait_ms max_wait_s
            = Some (Inl (RuntimeError (''Athena '' @ State q @ '': '' @
                    (case StateChangeReason q of None \<Rightarrow> [] | Some r \<Rightarrow> r))), Suc k)"
    by (simp add: athena_results_poll [OF h(1)] poll_loop_skip [OF g]
          poll_loop_failed [OF q])
next
  assume h: "\<not> falsy (py_or a b)"
     "\<forall>j<k. running_at env (the (py_or a b)) j \<and> \<not> expired env max_wait_s j
          \<and> sleep env j wait_ms = None"
     and q: "running_at env (the (py_or a b)) k" "expired env max_wait_s k"
  from h(2) have g: "\<forall>j<k. goes_on env (the (py_or a b)) wait_ms max_wait_s j"
    by (simp add: goes_on_def)
  show "athena_results env a b max_rows wait_ms max_wait_s
            = Some (Inl (TimeoutError ''Athena query timed out''), Suc k)"
    by (simp add: athena_results_poll [OF h(1)] poll_loop_skip [OF g]
          poll_loop_expired [OF q])
qed


theorem poller_failure_modes_witness:
  "athena_results env_failing (Some ''q1'') None 1000 400 60
     = Some (Inl (RuntimeError ''Athena FAILED: boom''), 3)
   \<and> athena_results env_stuck (Some ''q1'') None 1000 400 60
     = Some (Inl (TimeoutError ''Athena query timed out''), 2)
   \<and> TimeoutError ''Athena query timed out'' \<noteq> RuntimeError ''Athena FAILED: boom''"
proof -
  have "athena_results env_failing (Some ''q1'') None 1000 400 60
     = Some (Inl (RuntimeError ''Athena FAILED: boom''), 3)"
    using poller_failure_modes [of "Some ''q1''" None 2 env_failing 60 400 1000]
    by (simp add: env_failing_def py_or_def falsy_def running_at_def expired_def sleep_def
          terminal_def less_Suc_eq numeral_2_eq_2 numeral_3_eq_3)
  moreover have "athena_results env_stuck (Some ''q1'') None 1000 400 60
     = Some (Inl (TimeoutError ''Athena query timed out''), 2)"
    using poller_failure_modes [of "Some ''q1''" None 1 env_stuck 60 400 1000]
    by (simp add: env_stuck_def py_or_def falsy_def running_at_def expired_def sleep_def
          terminal_def)
  ultimately show ?thesis by simp
qed

text \<open>
  Claim C10. When the poller sees \<open>SUCCEEDED\<close> at iteration \<open>k\<close>, having gone on
  after each iteration before (job still running, deadline not expired, sleep returned),
  and the fetch answers with the rows \<open>fetched\<close>, \<open>athena_results\<close> returns a result set in which:
  an empty \<open>fetched\<close> gives empty columns and empty rows (no error); otherwise the
  columns are the cells of the first fetched row, position by position, a cell without
  \<open>VarCharValue\<close> becoming the empty string; the rows are the fetched rows after the
  first, cells kept as they are (a missing value stays \<open>None\<close>); and when the backend
  returns at most \<open>max_rows\<close> rows, with \<open>max_rows\<close> positive, there are at most
  \<open>max_rows - 1\<close> data rows.
\<close>

theorem fetch_header_and_rows:
  "\<not> falsy (py_or a b) \<longrightarrow>
   (\<forall>j<k. running_at env (the (py_or a b)) j \<and> \<not> expired env max_wait_s j
          \<and> sleep env j wait_ms = None) \<longrightarrow>
   (\<exists>q. get_query_execution env k (the (py_or a b)) = Inr q \<and> State q = ''SUCCEEDED'') \<longrightarrow>
   get_query_results env (the (py_or a b)) max_rows = Inr fetched \<longrightarrow>
   (\<exists>res. athena_results env a b max_rows wait_ms max_wait_s = Some (Inr res, Suc k)
      \<and> (fetched = [] \<longrightarrow> columns res = [] \<and> rows res = [])
      \<and> (fetched \<noteq> [] \<longrightarrow>
            length (columns res) = length (hd fetched)
          \<and> (\<forall>i<length (hd fetched).
                columns res ! i = (case hd fetched ! i of None \<Rightarrow> '''' | Some v \<Rightarrow> v)))
      \<and> rows res = tl fetched
      \<and> (0 < max_rows \<longrightarrow> int (length fetched) \<le> max_rows \<longrightarrow>
            int (length (rows res)) \<le> max_rows - 1))"
proof (intro impI)
  assume h: "\<not> falsy (py_or a b)"
     "\<forall>j<k. running_at env (the (py_or a b)) j \<and> \<not> expired env max_wait_s j
          \<and> sleep env j wait_ms = None"
     and q: "\<exists>q. get_query_execution env k (the (py_or a b)) = Inr q \<and> State q = ''SUCCEEDED''"
     and f: "get_query_results env (the (py_or a b)) max_rows = Inr fetched"
  from h(2) have g: "\<forall>j<k. goes_on env (the (py_or a b)) wait_ms max_wait_s j"
    by (simp add: goes_on_def)
  from q obtain q where q': "get_query_execution env k (the (py_or a b)) = Inr q"
    "State q = ''SUCCEEDED''" by blast
  let ?res = "\<lparr>columns = headers_of fetched, rows = data_of fetched\<rparr>"
  have run: "athena_results env a b max_rows wait_ms max_wait_s = Some (Inr ?res, Suc k)"
    by (simp add: athena_results_poll [OF h(1)] poll_loop_skip [OF g]
          poll_loop_succeeded [OF q'] f)
  have rows_eq: "data_of fetched = tl fetched"
    by (cases fetched; cases "tl fetched") (simp_all add: data_of_def)
  have hdr: "fetched \<noteq> [] \<Longrightarrow> headers_of fetched
       = map (\<lambda>c. case c of None \<Rightarrow> [] | Some v \<Rightarrow> v) (hd fetched)"
    by (cases fetched) (simp_all add: headers_of_def)
  have "(fetched = [] \<longrightarrow> columns ?res = [] \<and> rows ?res = [])"
    by (simp add: headers_of_def data_of_def)
  moreover have "fetched \<noteq> [] \<longrightarrow>
            length (columns ?res) = length (hd fetched)
          \<and> (\<forall>i<length (hd fetched).
                columns ?res ! i = (case hd fetched ! i of None \<Rightarrow> '''' | Some v \<Rightarrow> v))"
    by (simp add: hdr)
  moreover have "rows ?res = tl fetched" by (simp add: rows_eq)
  moreover have "0 < max_rows \<longrightarrow> int (length fetched) \<le> max_rows \<longrightarrow>
            int (length (rows ?res)) \<le> max_rows - 1"
    using rows_eq by (cases fetched) auto
  ultimately show "\<exists>res. athena_results env a b max_rows wait_ms max_wait_s = Some (Inr res, Suc k)
      \<and> (fetched = [] \<longrightarrow> columns res = [] \<and> rows res = [])
      \<and> (fetched \<noteq> [] \<longrightarrow>
            length (columns res) = length (hd fetched)
          \<and> (\<forall>i<length (hd fetched).
                columns res ! i = (case hd fetched ! i of None \<Rightarrow> '''' | Some v \<Rightarrow> v)))
      \<and> rows res = tl fetched
      \<and> (0 < max_rows \<longrightarrow> int (length fetched) \<le> max_rows \<longrightarrow>
            int (length (rows res)) \<le> max_rows - 1)"
    using run by blast
qed

theorem fetch_header_and_rows_witness:
  "\<exists>res. athena_results env_done None (Some ''q7'') 3 400 60 = Some (Inr res, 2)
     \<and> length (columns res) = 2 \<and> columns res ! 0 = ''day'' \<and> columns res ! 1 = []
     \<and> rows res = [[Some ''mon'', None], [None, Some ''7'']]"
proof -
  let ?f = "[[Some ''day'', None], [Some ''mon'', None], [None, Some ''7'']]"
  have a: "\<not> falsy (py_or None (Some ''q7''))"
    by (simp add: py_or_def falsy_def)
  have b: "\<forall>j<1. running_at env_done (the (py_or None (Some ''q7''))) j
             \<and> \<not> expired env_done 60 j \<and> sleep env_done j 400 = None"
    by (simp add: env_done_def running_at_def expired_def terminal_def sleep_def)
  have c: "\<exists>q. get_query_execution env_done 1 (the (py_or None (Some ''q7''))) = Inr q
             \<and> State q = ''SUCCEEDED''"
    by (simp add: env_done_def)
  have d: "get_query_results env_done (the (py_or None (Some ''q7''))) 3 = Inr ?f"
    by (simp add: env_done_def)
  from fetch_header_and_rows [of None "Some ''q7''" 1 env_done 60 400 3 ?f] a b c d
  obtain res where r: "athena_results env_done None (Some ''q7'') 3 400 60 = Some (Inr res, Suc 1)"
    "length (columns res) = length (hd ?f)"
    "\<forall>i<length (hd ?f). columns res ! i = (case hd ?f ! i of None \<Rightarrow> [] | Some v \<Rightarrow> v)"
    "rows res = tl ?f"
    by auto
  have "columns res ! 0 = ''day''" "columns res ! 1 = []"
    using r(3) by simp_all
  then show ?thesis using r by (simp add: numeral_2_eq_2)
qed


section \<open>Properties of the statement guard\<close>

lemma in_word_range: "(lo, hi) \<in> set word_ranges \<Longrightarrow> lo \<le> c \<Longrightarrow> c \<le> hi \<Longrightarrow> is_word c"
  by (auto simp: is_word_def list_ex_iff)

lemma letter_ranges:
  "(65, 90) \<in> set word_ranges" "(97, 122) \<in> set word_ranges"
  "(248, 705) \<in> set word_ranges" "(8490, 8493) \<in> set word_ranges"
  by (simp_all add: word_ranges_def)

lemma rmatch_guarded_alternatives:
  "rmatch (Sequence [WordBoundary, Alternation (map Literal ts), WordBoundary]) s i \<noteq> []
     \<longleftrightarrow> at_boundary s i \<and> (\<exists>t\<in>set ts. lit_match t (drop i s) \<and> at_boundary s (i + length t))"
  by (auto simp: o_def)

lemma SQL_BLOCK_tokens:
  "SQL_BLOCK = Sequence [WordBoundary, Alternation (map Literal blocked_tokens), WordBoundary]"
  by (simp add: SQL_BLOCK_def blocked_tokens_def)

lemma blocked_tokens_upper:
  "t \<in> set blocked_tokens \<Longrightarrow> t \<noteq> [] \<and> (\<forall>p\<in>set t. upper_ascii p)"
  by (auto simp: blocked_tokens_def upper_ascii_def)

lemma fold_eq_upper:
  "upper_ascii p \<Longrightarrow> ignorecase_eq p c \<longleftrightarrow> folded_upper c = of_char p"
  by (auto simp: upper_ascii_def ignorecase_eq_def ascii_lower_def folded_upper_def
        ascii_upper_def Let_def split: if_splits)

lemma ascii_eq_folded:
  "upper_ascii p \<Longrightarrow> ascii_upper c = of_char p \<Longrightarrow> folded_upper c = of_char p"
  by (auto simp: upper_ascii_def folded_upper_def ascii_upper_def split: if_splits)

lemma fold_eq_word:
  assumes "upper_ascii p" "ignorecase_eq p c"
  shows "is_word c"
proof -
  from assms have "(65 \<le> c \<and> c \<le> 90) \<or> (97 \<le> c \<and> c \<le> 122) \<or> (248 \<le> c \<and> c \<le> 705)
      \<or> (8490 \<le> c \<and> c \<le> 8493)"
    by (auto simp: upper_ascii_def ignorecase_eq_def ascii_lower_def Let_def split: if_splits)
  then show ?thesis using letter_ranges by (auto intro: in_word_range)
qed

lemma lit_match_iff:
  "\<forall>p\<in>set t. upper_ascii p \<Longrightarrow>
   lit_match t u \<longleftrightarrow> length t \<le> length u \<and> map folded_upper (take (length t) u) = codes t"
proof (induction t u rule: lit_match.induct)
  case (1 cs)
  then show ?case by (simp add: codes_def)
next
  case (2 p ps)
  then show ?case by simp
next
  case (3 p ps c cs)
  then show ?case by (auto simp: fold_eq_upper codes_def)
qed

lemma lit_match_word_ends:
  assumes "\<forall>p\<in>set t. upper_ascii p" "t \<noteq> []" "lit_match t u"
  shows "is_word (u ! 0) \<and> is_word (u ! (length t - 1))"
  using assms
proof (induction t u rule: lit_match.induct)
  case (1 cs)
  then show ?case by simp
next
  case (2 p ps)
  then show ?case by simp
next
  case (3 p ps c cs)
  show ?case
  proof (cases ps)
    case Nil
    with 3 show ?thesis by (auto intro: fold_eq_word)
  next
    case (Cons q qs)
    with 3 show ?thesis by (auto intro: fold_eq_word)
  qed
qed

lemma guarded_match_iff:
  assumes up: "\<forall>p\<in>set t. upper_ascii p" and ne: "t \<noteq> []" and i: "i \<le> length s"
  shows "at_boundary s i \<and> lit_match t (drop i s) \<and> at_boundary s (i + length t)
         \<longleftrightarrow> whole_word_at folded_upper t s i"
proof (cases "lit_match t (drop i s)")
  case False
  then show ?thesis
    using up i by (auto simp: whole_word_at_def lit_match_iff)
next
  case True
  from True up have len: "i + length t \<le> length s"
    and eq: "map folded_upper (take (length t) (drop i s)) = codes t"
    using i by (auto simp: lit_match_iff)
  from ne have lt: "0 < length t" by simp
  from len ne have ilt: "i < length s" by (cases t) auto
  from lit_match_word_ends [OF up ne True] len lt
  have w: "is_word (s ! i)" "is_word (s ! (i + length t - 1))"
    by (simp_all add: nth_drop add.commute)
  have a: "at_boundary s i \<longleftrightarrow> (i = 0 \<or> \<not> is_word (s ! (i - 1)))"
    using w(1) ilt by (auto simp: at_boundary_def)
  have b: "at_boundary s (i + length t) \<longleftrightarrow>
            (i + length t = length s \<or> \<not> is_word (s ! (i + length t)))"
    using w(2) len ne by (cases t) (auto simp: at_boundary_def)
  show ?thesis using True len eq a b by (auto simp: whole_word_at_def)
qed

lemma list_ex_upto: "list_ex P [0..<Suc n] \<longleftrightarrow> (\<exists>i\<le>n. P i)"
  unfolding list_ex_iff by (auto simp del: upt_Suc simp: less_Suc_eq_le)

lemma mentions_iff:
  "mentions upper s \<longleftrightarrow> (\<exists>t\<in>set blocked_tokens. \<exists>i\<le>length s. whole_word_at upper t s i)"
  unfolding mentions_def list_ex_upto by (auto simp: list_ex_iff)

lemma search_is_whole_word: "re_search SQL_BLOCK s \<longleftrightarrow> mentions_folded s"
proof -
  have "re_search SQL_BLOCK s \<longleftrightarrow>
        (\<exists>i\<le>length s. \<exists>t\<in>set blocked_tokens.
            at_boundary s i \<and> lit_match t (drop i s) \<and> at_boundary s (i + length t))"
    unfolding re_search_def SQL_BLOCK_tokens list_ex_upto rmatch_guarded_alternatives
    by blast
  also have "\<dots> \<longleftrightarrow> (\<exists>i\<le>length s. \<exists>t\<in>set blocked_tokens. whole_word_at folded_upper t s i)"
    using guarded_match_iff blocked_tokens_upper by blast
  also have "\<dots> \<longleftrightarrow> mentions_folded s"
    unfolding mentions_folded_def mentions_iff by blast
  finally show ?thesis .
qed

lemma map_ascii_folded:
  "\<forall>p\<in>set t. upper_ascii p \<Longrightarrow> map ascii_upper u = codes t \<Longrightarrow> map folded_upper u = codes t"
proof (induction u arbitrary: t)
  case Nil
  then show ?case by simp
next
  case (Cons c u)
  then obtain p ps where t: "t = p # ps" by (cases t) (auto simp: codes_def)
  with Cons show ?case by (auto simp: codes_def ascii_eq_folded)
qed

lemma blocked_is_folded: "mentions_blocked s \<Longrightarrow> mentions_folded s"
  unfolding mentions_blocked_def mentions_folded_def mentions_iff whole_word_at_def
  using blocked_tokens_upper map_ascii_folded by blast

lemma ascii_codes:
  "is_word 68" "is_word 100" "is_word 79" "is_word 80" "is_word 112" "is_word 114"
  "is_word 97" "is_word 101" "is_word 116" "is_word 49" "is_word 115" "is_word 108"
  "is_word 99" "is_word 105" "is_word 110" "is_word 383"
  "\<not> is_word 59" "\<not> is_word 32"
  by (simp_all add: is_word_def word_ranges_def)

text \<open>
  Claim C1, as stated, fails on a statement written with a letter that is no ASCII
  letter: \<open>re.I\<close> compares code points after Unicode case mapping, under which the long
  s (\<open>U+017F\<close>) is an s. The statement \<open>select 1 as in\<close>\<open>U+017F\<close>\<open>ert\<close> holds none of the
  ten tokens in any case of its ASCII letters, and \<open>athena_query\<close> rejects it.
\<close>

theorem long_s_counterexample:
  "athena_query (\<lambda>q. Inr ''id-1'') long_s_statement
      = (Inl (ValueError ''Only SELECT/EXPLAIN allowed.''), [])
   \<and> \<not> mentions_blocked long_s_statement"
proof -
  have "whole_word_at folded_upper ''INSERT'' long_s_statement 12"
    by (simp add: whole_word_at_def long_s_statement_def codes_def folded_upper_def
          ascii_upper_def ascii_codes)
  then have "mentions_folded long_s_statement"
    unfolding mentions_folded_def mentions_iff
    by (intro bexI [of _ "''INSERT''"] exI [of _ 12])
       (simp_all add: blocked_tokens_def long_s_statement_def codes_def)
  then have a: "re_search SQL_BLOCK long_s_statement"
    by (simp add: search_is_whole_word)
  have b: "\<not> mentions_blocked long_s_statement"
    by (simp add: mentions_blocked_def mentions_def blocked_tokens_def whole_word_at_def
          long_s_statement_def codes_def ascii_upper_def ascii_codes)
  from a b show ?thesis by (simp add: athena_query_def)
qed

text \<open>
  Claim C1, amended: letters are compared as \<open>re.I\<close> compares them. A statement in which
  one of INSERT, UPDATE, DELETE, DROP, ALTER, TRUNCATE, CREATE, MSCK, GRANT, REVOKE
  occurs as a whole word at any position, each letter of the occurrence being the
  token's letter in either ASCII case or, for I, S and K, one of \<open>U+0130\<close>, \<open>U+0131\<close>
  (for I), \<open>U+017F\<close> (for S), \<open>U+212A\<close> (for K), makes \<open>athena_query\<close> raise
  \<open>ValueError\<close> with no query handed to the backend; a statement with no such
  occurrence passes the guard: the backend call is made with exactly that statement, and
  the outcome is the backend's. In particular every statement that holds a token as a
  whole word in some case of its ASCII letters is rejected. A whole word is an
  occurrence with no word character (alphanumeric code point or underscore) directly
  before or after it.
\<close>

theorem sql_guard:
  "(mentions_folded sql \<longrightarrow>
      athena_query start_query_execution sql
        = (Inl (ValueError ''Only SELECT/EXPLAIN allowed.''), []))
   \<and> (\<not> mentions_folded sql \<longrightarrow>
      athena_query start_query_execution sql
        = (case start_query_execution sql of
             Inl f \<Rightarrow> (Inl (BackendError f), [sql])
           | Inr qid \<Rightarrow> (Inr qid, [sql])))
   \<and> (mentions_blocked sql \<longrightarrow> mentions_folded sql)"
  by (simp add: athena_query_def search_is_whole_word blocked_is_folded)

theorem sql_guard_witness:
  "athena_query (\<lambda>q. Inr ''id-1'') drop_statement
      = (Inl (ValueError ''Only SELECT/EXPLAIN allowed.''), [])
   \<and> athena_query (\<lambda>q. Inr ''id-1'') dropped_statement = (Inr ''id-1'', [dropped_statement])
   \<and> mentions_blocked drop_statement"
proof -
  have "whole_word_at ascii_upper ''DROP'' drop_statement 2"
    by (simp add: whole_word_at_def drop_statement_def codes_def ascii_upper_def ascii_codes)
  then have yes: "mentions_blocked drop_statement"
    unfolding mentions_blocked_def mentions_iff
    by (intro bexI [of _ "''DROP''"] exI [of _ 2])
       (simp_all add: blocked_tokens_def drop_statement_def codes_def)
  have no: "\<not> mentions_folded dropped_statement"
    by (simp add: mentions_folded_def mentions_def blocked_tokens_def whole_word_at_def
          dropped_statement_def codes_def folded_upper_def ascii_upper_def ascii_codes)
  show ?thesis
    using sql_guard [of drop_statement "\<lambda>q. Inr ''id-1''"]
          sql_guard [of dropped_statement "\<lambda>q. Inr ''id-1''"] yes no
    by simp
qed

section \<open>Properties of the result extractor\<close>

lemmas eval_json = json_loads_def quoted_def escaped_def escape_char_def is_digit_def
  scan_int_def
  inner_payload_def wrapped_payload_def text_content_dump_def text_content_def text_only_def
  extract_tool_result_def text_field_def json_present_def

lemma dumps_boom: "json_dumps (JObj [(''error'', JStr ''boom'')]) = boom_payload"
  by (simp add: json_dumps.simps boom_payload_def escaped_def escape_char_def)

lemma loads_boom: "json_loads boom_payload = Decoded (JObj [(''error'', JStr ''boom'')])"
  by (simp add: boom_payload_def eval_json)

lemma json_loads_hello: "json_loads ''hello'' = DecodeError ''JSONDecodeError''"
  by (simp add: eval_json)

lemma json_loads_inner: "json_loads inner_payload = Decoded (JObj [(''a'', JInt 1)])"
  by (simp add: eval_json)

lemma json_loads_dump:
  "json_loads (text_content_dump inner_payload)
     = Decoded (JObj [(''type'', JStr ''text''), (''text'', JStr inner_payload),
                      (''annotations'', JNull)])"
  by (simp add: eval_json)

text \<open>
  Claim C7, as stated, fails on a text item of the tool protocol, which offers
  \<open>model_dump_json\<close>: the extractor decodes the serialised item, not the text. For the
  text \<open>hello\<close> it returns the whole decoded item, not \<open>{"text": "hello"}\<close>; for the
  text \<open>{"text": "{\"a\":1}"}\<close> it returns \<open>{"text": "{\"a\":1}"}\<close>, one level decoded,
  not \<open>{"a": 1}\<close>.
\<close>

theorem text_item_counterexample:
  "extract_tool_result json_loads (Some [text_content ''hello''])
     = Inr (JObj [(''type'', JStr ''text''), (''text'', JStr ''hello''), (''annotations'', JNull)])
   \<and> extract_tool_result json_loads (Some [text_content ''hello''])
     \<noteq> Inr (JObj [(''text'', JStr ''hello'')])
   \<and> extract_tool_result json_loads (Some [text_content wrapped_payload])
     = Inr (JObj [(''text'', JStr inner_payload)])
   \<and> extract_tool_result json_loads (Some [text_content wrapped_payload])
     \<noteq> Inr (JObj [(''a'', JInt 1)])"
  by (simp add: eval_json)

text \<open>
  Claim C7, amended. The extractor returns a value for every response and every
  behaviour of the decoder and of the methods of the items; it never raises. A response
  without content, or with an empty content list, gives \<open>{"error": "No content found"}\<close>.
  The first item decides:
  \<^item> an item that offers \<open>model_dump_json\<close>: the dump is decoded; when the decoded value
    is an object with a string \<open>text\<close> field that itself decodes, the inner value is
    returned, and when that field fails to decode, the decoded dump; an exception of
    the method, any failure to decode the dump, and an exception other than a decode
    failure while decoding the field, give \<open>{"error": message}\<close>;
  \<^item> an item with no dump but a \<open>json\<close> method: the value the method returns, undecoded,
    or \<open>{"error": message}\<close> when it raises;
  \<^item> an item with nothing but a non-empty text: the text is decoded, then a string
    \<open>text\<close> field of the result, the inner value being preferred when it decodes and
    the outer value returned when the field fails to decode; a text that does not
    decode, for whatever reason, and an exception other than a decode failure while
    decoding the field, give \<open>{"text": text}\<close>;
  \<^item> an item with none of the three is skipped.
  In particular a text-only item \<open>{"text": "{\"a\":1}"}\<close> gives \<open>{"a": 1}\<close> and a
  text-only item \<open>hello\<close> gives \<open>{"text": "hello"}\<close>.
\<close>

theorem extractor_degrades_gracefully:
  "(\<exists>v. extract_tool_result decode mcp_result = Inr v)
   \<and> extract_tool_result decode None = Inr (JObj [(''error'', JStr ''No content found'')])
   \<and> extract_tool_result decode (Some []) = Inr (JObj [(''error'', JStr ''No content found'')])
   \<and> extract_tool_result decode
        (Some (\<lparr>model_dump_json = Some (Inr dumped), json_attribute = ja, text_attr = ta\<rparr>
                 # items))
          = Inr (case decode dumped of
                   Decoded outer \<Rightarrow>
                     (case decode_nested decode outer of
                        Inr v \<Rightarrow> v
                      | Inl e \<Rightarrow> JObj [(''error'', JStr e)])
                 | DecodeError e \<Rightarrow> JObj [(''error'', JStr e)]
                 | OtherError e \<Rightarrow> JObj [(''error'', JStr e)])
   \<and> extract_tool_result decode
        (Some (\<lparr>model_dump_json = Some (Inl e), json_attribute = ja, text_attr = ta\<rparr> # items))
          = Inr (JObj [(''error'', JStr e)])
   \<and> extract_tool_result decode
        (Some (\<lparr>model_dump_json = None, json_attribute = JsonMethod (Inr v), text_attr = ta\<rparr>
                 # items))
          = Inr v
   \<and> extract_tool_result decode
        (Some (\<lparr>model_dump_json = None, json_attribute = JsonMethod (Inl e), text_attr = ta\<rparr>
                 # items))
          = Inr (JObj [(''error'', JStr e)])
   \<and> (t \<noteq> [] \<longrightarrow>
        extract_tool_result decode (Some (text_only t # items))
          = Inr (case decode t of
                   Decoded outer \<Rightarrow>
                     (case decode_nested decode outer of
                        Inr v \<Rightarrow> v
                      | Inl e \<Rightarrow> JObj [(''text'', JStr t)])
                 | DecodeError e \<Rightarrow> JObj [(''text'', JStr t)]
                 | OtherError e \<Rightarrow> JObj [(''text'', JStr t)]))
   \<and> extract_tool_result decode
        (Some (\<lparr>model_dump_json = None, json_attribute = NoJson, text_attr = None\<rparr> # items))
          = extract_tool_result decode (Some items)
   \<and> extract_tool_result json_loads (Some [text_only wrapped_payload])
        = Inr (JObj [(''a'', JInt 1)])
   \<and> extract_tool_result json_loads (Some [text_only ''hello''])
        = Inr (JObj [(''text'', JStr ''hello'')])"
proof -
  have "\<exists>v. extract_tool_result decode mcp_result = Inr v"
    by (simp add: extract_tool_result_def split: sum.splits option.splits)
  moreover have "extract_tool_result decode
        (Some (\<lparr>model_dump_json = Some (Inr dumped), json_attribute = ja, text_attr = ta\<rparr>
                 # items))
          = Inr (case decode dumped of
                   Decoded outer \<Rightarrow>
                     (case decode_nested decode outer of
                        Inr v \<Rightarrow> v
                      | Inl e \<Rightarrow> JObj [(''error'', JStr e)])
                 | DecodeError e \<Rightarrow> JObj [(''error'', JStr e)]
                 | OtherError e \<Rightarrow> JObj [(''error'', JStr e)])"
    by (simp add: extract_tool_result_def decode_nested_def
             split: decoding.splits option.splits)
  moreover have "extract_tool_result decode
        (Some (\<lparr>model_dump_json = Some (Inl e), json_attribute = ja, text_attr = ta\<rparr> # items))
          = Inr (JObj [(''error'', JStr e)])"
    by (simp add: extract_tool_result_def)
  moreover have "extract_tool_result decode
        (Some (\<lparr>model_dump_json = None, json_attribute = JsonMethod (Inr v), text_attr = ta\<rparr>
                 # items))
          = Inr v"
    by (simp add: extract_tool_result_def json_present_def)
  moreover have "extract_tool_result decode
        (Some (\<lparr>model_dump_json = None, json_attribute = JsonMethod (Inl e), text_attr = ta\<rparr>
                 # items))
          = Inr (JObj [(''error'', JStr e)])"
    by (simp add: extract_tool_result_def json_present_def)
  moreover have "t \<noteq> [] \<longrightarrow>
        extract_tool_result decode (Some (text_only t # items))
          = Inr (case decode t of
                   Decoded outer \<Rightarrow>
                     (case decode_nested decode outer of
                        Inr v \<Rightarrow> v
                      | Inl e \<Rightarrow> JObj [(''text'', JStr t)])
                 | DecodeError e \<Rightarrow> JObj [(''text'', JStr t)]
                 | OtherError e \<Rightarrow> JObj [(''text'', JStr t)])"
    by (simp add: extract_tool_result_def text_only_def json_present_def decode_nested_def
             split: decoding.splits option.splits)
  moreover have "extract_tool_result decode
        (Some (\<lparr>model_dump_json = None, json_attribute = NoJson, text_attr = None\<rparr> # items))
          = extract_tool_result decode (Some items)"
    by (simp add: extract_tool_result_def json_present_def)
  moreover have "extract_tool_result json_loads (Some [text_only wrapped_payload])
        = Inr (JObj [(''a'', JInt 1)])"
    by (simp add: eval_json)
  moreover have "extract_tool_result json_loads (Some [text_only ''hello''])
        = Inr (JObj [(''text'', JStr ''hello'')])"
    by (simp add: eval_json)
  ultimately show ?thesis by (simp add: extract_tool_result_def)
qed

theorem extractor_degrades_gracefully_witness:
  "''hello'' \<noteq> []
   \<and> extract_tool_result json_loads (Some [text_only ''hello''])
        = Inr (JObj [(''text'', JStr ''hello'')])
   \<and> extract_tool_result json_loads (Some [text_content inner_payload])
        = Inr (JObj [(''a'', JInt 1)])"
  using extractor_degrades_gracefully [where decode = json_loads and t = "''hello''"
         and dumped = "text_content_dump inner_payload"
         and ja = "JsonMethod (Inr (JStr (text_content_dump inner_payload)))"
         and ta = "Some inner_payload" and items = "[]"]
  by (simp add: json_loads_hello json_loads_dump json_loads_inner text_content_def
        decode_nested_def text_field_def)

section \<open>Properties of the orchestrator\<close>

subsection \<open>One iteration\<close>

lemma scan_blocks_prefix:
  "\<forall>b\<in>set pre. \<not> is_tool_use_block b \<Longrightarrow>
   scan_blocks (pre @ ToolUseBlock tid tname tinput # post)
     = (map Text (block_texts pre) @ [ToolUse tid tname tinput], Some (tid, tname, tinput))"
  by (induction pre rule: block_texts.induct) (auto simp: is_tool_use_block_def)

lemma scan_blocks_none:
  "\<forall>b\<in>set bs. \<not> is_tool_use_block b \<Longrightarrow> scan_blocks bs = (map Text (block_texts bs), None)"
  by (induction bs rule: block_texts.induct) (auto simp: is_tool_use_block_def)

lemma scan_blocks_no_tool_use:
  "snd (scan_blocks bs) = None \<longleftrightarrow> (\<forall>b\<in>set bs. \<not> is_tool_use_block b)"
  by (induction bs rule: scan_blocks.induct)
     (auto simp: is_tool_use_block_def split: prod.splits)

lemma salvage_parts_only:
  "\<forall>msg\<in>set msgs. role msg = Assistant \<longrightarrow> parts_only msg \<Longrightarrow>
   salvage msgs = Inr (assistant_texts msgs)"
  by (induction msgs) (auto simp: assistant_texts_def parts_only_def split: msg_content.splits)

lemma salvage_plain:
  "\<exists>msg\<in>set msgs. role msg = Assistant \<and> \<not> parts_only msg \<Longrightarrow>
   salvage msgs = Inl (AttributeError NO_GET)"
  by (induction msgs) (auto simp: parts_only_def split: msg_content.splits sum.splits)

lemma salvage_cases:
  "salvage msgs =
     (if \<forall>msg\<in>set msgs. role msg = Assistant \<longrightarrow> parts_only msg
      then Inr (assistant_texts msgs) else Inl (AttributeError NO_GET))"
  using salvage_parts_only [of msgs] salvage_plain [of msgs] by auto

lemma join_lines_nonempty: "xs \<noteq> [] \<Longrightarrow> hd xs \<noteq> [] \<Longrightarrow> join_lines xs \<noteq> []"
  by (induction xs rule: join_lines.induct) auto

lemma join_lines_empty: "join_lines xs = [] \<longleftrightarrow> xs = [] \<or> xs = [[]]"
  by (induction xs rule: join_lines.induct) auto

lemma block_texts_hd: "block_texts bs \<noteq> [] \<Longrightarrow> hd (block_texts bs) \<noteq> []"
  by (induction bs rule: block_texts.induct) auto

lemma scan_blocks_ids:
  "scan_blocks bs = (ac, Some (tid, tname, tinput)) \<Longrightarrow>
   tool_use_ids ac = [tid] \<and> tool_result_ids ac = []"
  by (induction bs arbitrary: ac rule: scan_blocks.induct) (auto split: if_splits prod.splits)

lemma loop_body_continue:
  assumes "loop_body w system_prompt tool_definitions st = Inr st'"
  shows "\<exists>ac tid tname tinput result.
           tool_use_ids ac = [tid] \<and> tool_result_ids ac = []
         \<and> current_messages st' = current_messages st @
             [\<lparr>role = Assistant, content = Parts ac\<rparr>,
              \<lparr>role = User, content = Parts [ToolResult tid result]\<rparr>]
         \<and> dispatched st' = dispatched st @ [(tid, tname, tinput)]
         \<and> requests st' = requests st @ [the_request system_prompt tool_definitions st]"
proof -
  from assms obtain blocks ac tid tname tinput where
    sc: "scan_blocks blocks = (ac, Some (tid, tname, tinput))"
    and st': "st' = st\<lparr>requests := requests st @ [the_request system_prompt tool_definitions st],
                     current_messages := current_messages st @
                       [\<lparr>role = Assistant, content = Parts ac\<rparr>,
                        \<lparr>role = User, content = Parts
                           [ToolResult tid (run_tool w (length (dispatched st)) tname tinput)]\<rparr>],
                     dispatched := dispatched st @ [(tid, tname, tinput)]\<rparr>"
    by (auto simp: loop_body_def the_request_def Let_def
             split: reply.splits if_splits sum.splits prod.splits option.splits)
  from scan_blocks_ids [OF sc] st' show ?thesis by auto
qed

lemma loop_body_finish:
  assumes "loop_body w system_prompt tool_definitions st = Inl (out, st')"
  shows "current_messages st' = current_messages st \<and> dispatched st' = dispatched st
       \<and> requests st' = requests st @ [the_request system_prompt tool_definitions st]
       \<and> (\<forall>f. out = Raised f \<longrightarrow>
            (\<exists>e. llm w (length (requests st)) (the_request system_prompt tool_definitions st)
                    = Failed e
                \<and> (if rate_limited e then salvage (current_messages st) = Inl f
                    else f = ApiError e)))"
  using assms
  by (auto simp: loop_body_def the_request_def Let_def
           split: reply.splits if_splits sum.splits prod.splits option.splits)

lemma loop_body_empty:
  assumes "loop_body w system_prompt tool_definitions st = Inl (Returned [], st')"
  shows "case llm w (length (requests st)) (the_request system_prompt tool_definitions st) of
           Response blocks \<Rightarrow> block_texts blocks = [] \<and> (\<forall>b\<in>set blocks. \<not> is_tool_use_block b)
         | Failed e \<Rightarrow> rate_limited e \<and> salvage (current_messages st) = Inr [[]]"
proof (cases "llm w (length (requests st)) (the_request system_prompt tool_definitions st)")
  case (Failed e)
  with assms show ?thesis
    by (auto simp: loop_body_def the_request_def Let_def APOLOGY_def join_lines_empty
             split: if_splits sum.splits)
next
  case (Response blocks)
  with assms have n: "snd (scan_blocks blocks) = None"
    and j: "join_lines (block_texts blocks) = []"
    by (auto simp: loop_body_def the_request_def Let_def split: prod.splits option.splits)
  from j have "block_texts blocks = []"
    using join_lines_nonempty [of "block_texts blocks"] block_texts_hd [of blocks] by blast
  with n Response show ?thesis by (simp add: scan_blocks_no_tool_use)
qed

lemma started:
  "start_session w = Inr tool_definitions \<Longrightarrow>
   call_llm_with_tools w msgs system_prompt max_iterations
     = (case for_loop w system_prompt tool_definitions (nat max_iterations) (fresh msgs) of
          Inl done \<Rightarrow> done
        | Inr st \<Rightarrow> after_loop w system_prompt st)"
  by (simp add: call_llm_with_tools_def fresh_def)

lemma not_started:
  "start_session w = Inl e \<Longrightarrow>
   call_llm_with_tools w msgs system_prompt max_iterations
     = (Raised (SessionError e), fresh msgs)"
  by (simp add: call_llm_with_tools_def fresh_def)

lemma worlds_start:
  "start_session w_two = Inr []" "start_session w_mute = Inr []"
  "start_session w_silent = Inr []" "start_session w_limited = Inr []"
  "start_session w_down = Inr []" "start_session w_late = Inr []"
  "start_session w_late_limited = Inr []"
  by (simp_all add: w_two_def w_mute_def w_silent_def w_limited_def w_down_def w_late_def
        w_late_limited_def)

lemmas run_eval = call_llm_with_tools_def loop_body_def after_loop_def run_tool_def Let_def
  fresh_def question_def the_request_def summary_request_def user_parts_def is_tool_result_def
  keyed_result_def dumps_boom loads_boom data_keys_def

text \<open>
  Claim C3, as stated, fails on a response with two tool uses: the loop over the blocks
  breaks at the first one, so the second tool use is not dispatched and is not recorded
  either. The assistant message appended holds the text and the first tool use only.
\<close>

theorem multiple_tool_use_counterexample:
  "loop_body w_two ''sys'' [] (fresh question)
     = Inr \<lparr>current_messages = question @
              [\<lparr>role = Assistant,
                 content = Parts [Text ''look'', ToolUse ''t1'' ''glue_list_databases'' (JObj [])]\<rparr>,
               \<lparr>role = User, content = Parts [ToolResult ''t1'' boom_payload]\<rparr>],
            requests = [\<lparr>messages = question, system = ''sys'', tools = Some []\<rparr>],
            dispatched = [(''t1'', ''glue_list_databases'', JObj [])]\<rparr>
   \<and> ToolUse ''t2'' ''athena_query'' JNull
        \<notin> set [Text ''look'', ToolUse ''t1'' ''glue_list_databases'' (JObj [])]"
  by (simp add: run_eval w_two_def)

text \<open>
  Claim C3, amended. When a response holds a tool use, let \<open>pre\<close> be the blocks before
  the first one and \<open>post\<close> the blocks after it. The iteration dispatches exactly that
  tool use, and the assistant message it appends holds the non-empty texts of \<open>pre\<close>
  followed by that tool use and nothing else: no block of \<open>post\<close>, text or tool use,
  is recorded or dispatched.
\<close>

theorem first_tool_use_only:
  "llm w (length (requests st)) (the_request system_prompt tool_definitions st)
       = Response (pre @ ToolUseBlock tid tname tinput # post) \<longrightarrow>
   (\<forall>b\<in>set pre. \<not> is_tool_use_block b) \<longrightarrow>
   (\<exists>st'. loop_body w system_prompt tool_definitions st = Inr st'
      \<and> dispatched st' = dispatched st @ [(tid, tname, tinput)]
      \<and> current_messages st' = current_messages st @
           [\<lparr>role = Assistant,
              content = Parts (map Text (block_texts pre) @ [ToolUse tid tname tinput])\<rparr>,
            \<lparr>role = User,
              content = Parts [ToolResult tid
                                 (run_tool w (length (dispatched st)) tname tinput)]\<rparr>])"
  by (auto simp: loop_body_def the_request_def Let_def scan_blocks_prefix)

theorem first_tool_use_only_witness:
  "\<exists>st'. loop_body w_two ''sys'' [] (fresh question) = Inr st'
      \<and> dispatched st' = [(''t1'', ''glue_list_databases'', JObj [])]
      \<and> current_messages st' = question @
           [\<lparr>role = Assistant,
              content = Parts [Text ''look'', ToolUse ''t1'' ''glue_list_databases'' (JObj [])]\<rparr>,
            \<lparr>role = User, content = Parts [ToolResult ''t1'' boom_payload]\<rparr>]"
  using first_tool_use_only [of w_two "fresh question" "''sys''" "[]" "[TextBlock ''look'']"
      "''t1''" "''glue_list_databases''" "JObj []" "[ToolUseBlock ''t2'' ''athena_query'' JNull]"]
  by (simp add: w_two_def fresh_def the_request_def is_tool_use_block_def run_tool_def
        dumps_boom)

text \<open>
  Claim C8. In an iteration whose response holds a tool use, whatever the tool call
  does, the iteration ends in \<open>continue\<close>: the loop goes on with the remaining
  iterations from the new state, and nothing is returned or raised. When the tool call
  raises an exception with message \<open>e\<close>, the conversation grows by the assistant message
  and a user message with one tool result that carries the id of the tool use and the
  dumped payload \<open>{"error": e}\<close>.
\<close>

theorem tool_failure_absorbed:
  "llm w (length (requests st)) (the_request system_prompt tool_definitions st)
       = Response blocks \<longrightarrow>
   scan_blocks blocks = (assistant_content, Some (tid, tname, tinput)) \<longrightarrow>
   (\<exists>st'. loop_body w system_prompt tool_definitions st = Inr st'
      \<and> for_loop w system_prompt tool_definitions (Suc n) st
          = for_loop w system_prompt tool_definitions n st'
      \<and> (\<forall>e. call_tool w (length (dispatched st)) tname tinput = Inl e \<longrightarrow>
            current_messages st' = current_messages st @
              [\<lparr>role = Assistant, content = Parts assistant_content\<rparr>,
               \<lparr>role = User,
                 content = Parts [ToolResult tid (dumps w (JObj [(''error'', JStr e)]))]\<rparr>]))"
  by (auto simp: loop_body_def the_request_def Let_def run_tool_def)

theorem tool_failure_absorbed_witness:
  "\<exists>st'. loop_body w_two ''sys'' [] (fresh question) = Inr st'
      \<and> for_loop w_two ''sys'' [] (Suc 1) (fresh question) = for_loop w_two ''sys'' [] 1 st'
      \<and> current_messages st' = question @
           [\<lparr>role = Assistant,
              content = Parts [Text ''look'', ToolUse ''t1'' ''glue_list_databases'' (JObj [])]\<rparr>,
            \<lparr>role = User, content = Parts [ToolResult ''t1'' boom_payload]\<rparr>]"
  using tool_failure_absorbed [of w_two "fresh question" "''sys''" "[]"
      "[TextBlock ''look'', ToolUseBlock ''t1'' ''glue_list_databases'' (JObj []),
        ToolUseBlock ''t2'' ''athena_query'' JNull]"
      "[Text ''look'', ToolUse ''t1'' ''glue_list_databases'' (JObj [])]"
      "''t1''" "''glue_list_databases''" "JObj []" 1]
  by (simp add: w_two_def fresh_def the_request_def dumps_boom)

subsection \<open>After the loop\<close>

lemma keyed_is_tool_result: "keyed_result decode p \<Longrightarrow> is_tool_result p"
  by (cases p) (simp_all add: keyed_result_def is_tool_result_def)

lemma user_tool_result_iff:
  "list_ex is_tool_result (user_parts msg) \<longleftrightarrow>
     (role msg = User \<and>
        (\<exists>ps tid result. content msg = Parts ps \<and> ToolResult tid result \<in> set ps))"
proof (cases "content msg")
  case (Plain s)
  then show ?thesis by (simp add: user_parts_def)
next
  case (Parts ps)
  have "list_ex is_tool_result ps \<longleftrightarrow> (\<exists>tid result. ToolResult tid result \<in> set ps)"
  proof
    assume "list_ex is_tool_result ps"
    then obtain p where p: "p \<in> set ps" "is_tool_result p" by (auto simp: list_ex_iff)
    from p(2) have "\<exists>tid result. p = ToolResult tid result"
      by (simp add: is_tool_result_def split: part.splits)
    with p(1) show "\<exists>tid result. ToolResult tid result \<in> set ps" by blast
  next
    assume "\<exists>tid result. ToolResult tid result \<in> set ps"
    then show "list_ex is_tool_result ps"
      by (auto simp: list_ex_iff is_tool_result_def intro!: bexI)
  qed
  with Parts show ?thesis by (simp add: user_parts_def)
qed

lemma any_tool_result_iff:
  "list_ex (\<lambda>msg. list_ex is_tool_result (user_parts msg)) msgs \<longleftrightarrow> holds_tool_result msgs"
  unfolding list_ex_iff [of _ msgs] holds_tool_result_def
  by (simp only: user_tool_result_iff)

lemma has_data_iff:
  "(let has_data = list_ex (\<lambda>msg. list_ex (keyed_result decode) (user_parts msg)) msgs
    in (if \<not> has_data then list_ex (\<lambda>msg. list_ex is_tool_result (user_parts msg)) msgs
        else has_data)) \<longleftrightarrow> holds_tool_result msgs"
proof -
  have "list_ex (\<lambda>msg. list_ex (keyed_result decode) (user_parts msg)) msgs
        \<Longrightarrow> list_ex (\<lambda>msg. list_ex is_tool_result (user_parts msg)) msgs"
    unfolding list_ex_iff using keyed_is_tool_result by blast
  then show ?thesis by (auto simp: Let_def any_tool_result_iff)
qed

lemma after_loop_cases:
  "after_loop w system_prompt st =
     (if holds_tool_result (current_messages st) then
        (Returned (case llm w (length (requests st)) (summary_request system_prompt st) of
                     Failed e \<Rightarrow> FALLBACK
                   | Response blocks \<Rightarrow>
                       if block_texts blocks \<noteq> [] then join_lines (block_texts blocks)
                       else FALLBACK),
         st\<lparr>current_messages := messages (summary_request system_prompt st),
            requests := requests st @ [summary_request system_prompt st]\<rparr>)
      else (Returned FALLBACK, st))"
proof -
  have "after_loop w system_prompt st =
     (if (let has_data = list_ex (\<lambda>msg. list_ex (keyed_result (loads w)) (user_parts msg))
                           (current_messages st)
          in (if \<not> has_data
              then list_ex (\<lambda>msg. list_ex is_tool_result (user_parts msg)) (current_messages st)
              else has_data)) then
        (Returned (case llm w (length (requests st)) (summary_request system_prompt st) of
                     Failed e \<Rightarrow> FALLBACK
                   | Response blocks \<Rightarrow>
                       if block_texts blocks \<noteq> [] then join_lines (block_texts blocks)
                       else FALLBACK),
         st\<lparr>current_messages := messages (summary_request system_prompt st),
            requests := requests st @ [summary_request system_prompt st]\<rparr>)
      else (Returned FALLBACK, st))"
    by (simp add: after_loop_def summary_request_def Let_def split: reply.splits)
  then show ?thesis by (simp only: has_data_iff)
qed

lemma w_two_loop:
  "for_loop w_two ''sys'' [] (nat 1) (fresh question)
     = Inr \<lparr>current_messages = question @
              [\<lparr>role = Assistant,
                 content = Parts [Text ''look'', ToolUse ''t1'' ''glue_list_databases'' (JObj [])]\<rparr>,
               \<lparr>role = User, content = Parts [ToolResult ''t1'' boom_payload]\<rparr>],
            requests = [\<lparr>messages = question, system = ''sys'', tools = Some []\<rparr>],
            dispatched = [(''t1'', ''glue_list_databases'', JObj [])]\<rparr>"
  by (simp add: run_eval w_two_def)

lemma w_mute_loop:
  "for_loop w_mute ''sys'' [] (nat 1) (fresh question)
     = Inr \<lparr>current_messages = question @
              [\<lparr>role = Assistant,
                 content = Parts [ToolUse ''t1'' ''glue_list_databases'' (JObj [])]\<rparr>,
               \<lparr>role = User, content = Parts [ToolResult ''t1'' boom_payload]\<rparr>],
            requests = [\<lparr>messages = question, system = ''sys'', tools = Some []\<rparr>],
            dispatched = [(''t1'', ''glue_list_databases'', JObj [])]\<rparr>"
  by (simp add: run_eval w_two_def w_mute_def)

text \<open>
  Claim C4, as stated, fails when the final call has no text to return: with one tool
  result gathered, the run makes the second call without tools, that call answers with
  no content, and the run returns the fallback sentence, which is not the (empty) text
  of the call.
\<close>

theorem summary_text_counterexample:
  "fst (call_llm_with_tools w_mute question ''sys'' 1) = Returned FALLBACK
   \<and> length (requests (snd (call_llm_with_tools w_mute question ''sys'' 1))) = 2
   \<and> tools (last (requests (snd (call_llm_with_tools w_mute question ''sys'' 1)))) = None
   \<and> llm w_mute 1 (last (requests (snd (call_llm_with_tools w_mute question ''sys'' 1))))
        = Response []
   \<and> FALLBACK \<noteq> join_lines (block_texts [])"
  by (simp add: run_eval w_two_def w_mute_def) (simp add: FALLBACK_def)

text \<open>
  Claim C4, amended. In a session that has started, when the loop runs out with the
  state \<open>st\<close>: if some user message
  of the conversation holds a tool result part, the run appends one user message with
  the fixed request for an analysis, issues exactly one more model call, without tools,
  and returns the non-empty texts of the answer joined by newlines when there is at
  least one; when that call fails or answers with no text it returns the fixed fallback
  sentence. If no user message holds a tool result part, the run returns the fallback
  sentence and no further call is made.
\<close>

theorem exhausted_iterations:
  "start_session w = Inr tool_definitions \<longrightarrow>
   for_loop w system_prompt tool_definitions (nat max_iterations) (fresh msgs) = Inr st \<longrightarrow>
   (holds_tool_result (current_messages st) \<longrightarrow>
      call_llm_with_tools w msgs system_prompt max_iterations
        = (Returned (case llm w (length (requests st)) (summary_request system_prompt st) of
                       Failed e \<Rightarrow> FALLBACK
                     | Response blocks \<Rightarrow>
                         if block_texts blocks \<noteq> [] then join_lines (block_texts blocks)
                         else FALLBACK),
           st\<lparr>current_messages := current_messages st @
                                      [\<lparr>role = User, content = Plain ANALYSIS_PROMPT\<rparr>],
              requests := requests st @ [summary_request system_prompt st]\<rparr>))
   \<and> (\<not> holds_tool_result (current_messages st) \<longrightarrow>
      call_llm_with_tools w msgs system_prompt max_iterations
        = (Returned FALLBACK, st))"
  by (simp add: started after_loop_cases) (simp add: summary_request_def)

theorem exhausted_iterations_witness:
  "fst (call_llm_with_tools w_two question ''sys'' 1) = Returned ''summary''
   \<and> fst (call_llm_with_tools w_mute question ''sys'' 1) = Returned FALLBACK
   \<and> call_llm_with_tools w_two question ''sys'' 0 = (Returned FALLBACK, fresh question)"
proof -
  let ?result = "\<lparr>role = User, content = Parts [ToolResult ''t1'' boom_payload]\<rparr>"
  let ?st = "\<lambda>ps. \<lparr>current_messages = question @
                        [\<lparr>role = Assistant, content = Parts ps\<rparr>, ?result],
                     requests = [\<lparr>messages = question, system = ''sys'', tools = Some []\<rparr>],
                     dispatched = [(''t1'', ''glue_list_databases'', JObj [])]\<rparr>"
  let ?two = "?st [Text ''look'', ToolUse ''t1'' ''glue_list_databases'' (JObj [])]"
  let ?mute = "?st [ToolUse ''t1'' ''glue_list_databases'' (JObj [])]"
  have h: "holds_tool_result (current_messages (?st ps))" for ps
    by (simp add: holds_tool_result_def)
  have n: "\<not> holds_tool_result (current_messages (fresh question))"
    by (simp add: holds_tool_result_def question_def fresh_def)
  have z: "for_loop w_two ''sys'' [] (nat 0) (fresh question) = Inr (fresh question)"
    by simp
  have "call_llm_with_tools w_two question ''sys'' 1
     = (Returned (case llm w_two (length (requests ?two)) (summary_request ''sys'' ?two) of
                    Failed e \<Rightarrow> FALLBACK
                  | Response blocks \<Rightarrow>
                      if block_texts blocks \<noteq> [] then join_lines (block_texts blocks)
                      else FALLBACK),
        ?two\<lparr>current_messages := current_messages ?two @
                                     [\<lparr>role = User, content = Plain ANALYSIS_PROMPT\<rparr>],
             requests := requests ?two @ [summary_request ''sys'' ?two]\<rparr>)"
    using exhausted_iterations [of w_two "[]" "''sys''" 1 question ?two] w_two_loop h
      worlds_start(1)
    by blast
  then have one: "fst (call_llm_with_tools w_two question ''sys'' 1) = Returned ''summary''"
    by (simp add: w_two_def summary_request_def)
  have "call_llm_with_tools w_mute question ''sys'' 1
     = (Returned (case llm w_mute (length (requests ?mute)) (summary_request ''sys'' ?mute) of
                    Failed e \<Rightarrow> FALLBACK
                  | Response blocks \<Rightarrow>
                      if block_texts blocks \<noteq> [] then join_lines (block_texts blocks)
                      else FALLBACK),
        ?mute\<lparr>current_messages := current_messages ?mute @
                                     [\<lparr>role = User, content = Plain ANALYSIS_PROMPT\<rparr>],
             requests := requests ?mute @ [summary_request ''sys'' ?mute]\<rparr>)"
    using exhausted_iterations [of w_mute "[]" "''sys''" 1 question ?mute] w_mute_loop h
      worlds_start(2)
    by blast
  then have two: "fst (call_llm_with_tools w_mute question ''sys'' 1) = Returned FALLBACK"
    by (simp add: w_two_def w_mute_def summary_request_def)
  have three: "call_llm_with_tools w_two question ''sys'' 0
                 = (Returned FALLBACK, fresh question)"
    using exhausted_iterations [of w_two "[]" "''sys''" 0 question "fresh question"] z n
      worlds_start(1)
    by blast
  from one two three show ?thesis by simp
qed

subsection \<open>Whole runs\<close>

lemma w_late_loop:
  "for_loop w_late ''sys'' [] (nat 1) (fresh question)
     = Inr \<lparr>current_messages = question @
              [\<lparr>role = Assistant,
                 content = Parts [Text ''look'', ToolUse ''t1'' ''glue_list_databases'' (JObj [])]\<rparr>,
               \<lparr>role = User, content = Parts [ToolResult ''t1'' boom_payload]\<rparr>],
            requests = [\<lparr>messages = question, system = ''sys'', tools = Some []\<rparr>],
            dispatched = [(''t1'', ''glue_list_databases'', JObj [])]\<rparr>"
  "for_loop w_late_limited ''sys'' [] (nat 1) (fresh question)
     = Inr \<lparr>current_messages = question @
              [\<lparr>role = Assistant,
                 content = Parts [Text ''look'', ToolUse ''t1'' ''glue_list_databases'' (JObj [])]\<rparr>,
               \<lparr>role = User, content = Parts [ToolResult ''t1'' boom_payload]\<rparr>],
            requests = [\<lparr>messages = question, system = ''sys'', tools = Some []\<rparr>],
            dispatched = [(''t1'', ''glue_list_databases'', JObj [])]\<rparr>"
  by (simp_all add: run_eval w_two_def w_late_def w_late_limited_def)

lemma rate_limited_examples:
  "rate_limited ''Error code: 429''" "\<not> rate_limited ''overloaded''"
  by (simp_all add: rate_limited_def tolower_def)

text \<open>
  Claim C5, as stated, fails for the final summarisation call, which sits in a handler
  of its own: when that call fails, the run returns the fallback sentence. A failure
  that is not classified as rate-limiting does not leave the run there, and a
  rate-limit failure there does not return the text gathered so far (here \<open>look\<close>).
\<close>

theorem final_call_failure_counterexample:
  "fst (call_llm_with_tools w_late question ''sys'' 1) = Returned FALLBACK
   \<and> llm w_late 1 (last (requests (snd (call_llm_with_tools w_late question ''sys'' 1))))
        = Failed ''overloaded''
   \<and> \<not> rate_limited ''overloaded''
   \<and> fst (call_llm_with_tools w_late_limited question ''sys'' 1) = Returned FALLBACK
   \<and> llm w_late_limited 1
        (last (requests (snd (call_llm_with_tools w_late_limited question ''sys'' 1))))
        = Failed ''Error code: 429''
   \<and> rate_limited ''Error code: 429''
   \<and> assistant_texts
        (current_messages (snd (call_llm_with_tools w_late_limited question ''sys'' 1)))
        = [''look'']
   \<and> FALLBACK \<noteq> ''look''"
proof -
  have "fst (call_llm_with_tools w_late question ''sys'' 1) = Returned FALLBACK
   \<and> llm w_late 1 (last (requests (snd (call_llm_with_tools w_late question ''sys'' 1))))
        = Failed ''overloaded''
   \<and> fst (call_llm_with_tools w_late_limited question ''sys'' 1) = Returned FALLBACK
   \<and> llm w_late_limited 1
        (last (requests (snd (call_llm_with_tools w_late_limited question ''sys'' 1))))
        = Failed ''Error code: 429''
   \<and> assistant_texts
        (current_messages (snd (call_llm_with_tools w_late_limited question ''sys'' 1)))
        = [''look'']"
    by (simp add: run_eval w_two_def w_late_def w_late_limited_def assistant_texts_def)
  moreover have "FALLBACK \<noteq> ''look''" by (simp add: FALLBACK_def)
  ultimately show ?thesis using rate_limited_examples by simp
qed

text \<open>
  Claim C5, amended. Take a loop iteration whose model call fails with message \<open>e\<close>.
  If \<open>e\<close> is classified as rate-limiting (it contains \<open>429\<close>, or \<open>rate limit\<close> in any
  letter case), the handler walks over the assistant messages of the conversation. When
  each of them holds a list of parts (or the empty string), the run returns the texts of
  all their text parts, in order, joined by newlines, or the fixed apology when there is
  no such part. When one of them holds a non-empty plain string, the walk itself fails
  and an \<open>AttributeError\<close> leaves the run. If \<open>e\<close> is not classified as rate-limiting,
  the failure leaves the run. A failure of the final summarisation call, of either kind,
  is absorbed: the run returns the fallback sentence.
\<close>

theorem rate_limit_salvage:
  "(llm w (length (requests st)) (the_request system_prompt tool_definitions st) = Failed e \<longrightarrow>
     (rate_limited e \<longrightarrow>
        (\<exists>st'. for_loop w system_prompt tool_definitions (Suc n) st
            = Inl ((if \<forall>msg\<in>set (current_messages st). role msg = Assistant \<longrightarrow> parts_only msg
                    then Returned (if assistant_texts (current_messages st) \<noteq> []
                                   then join_lines (assistant_texts (current_messages st))
                                   else APOLOGY)
                    else Raised (AttributeError NO_GET)), st')))
     \<and> (\<not> rate_limited e \<longrightarrow>
        (\<exists>st'. for_loop w system_prompt tool_definitions (Suc n) st
            = Inl (Raised (ApiError e), st'))))
   \<and> (start_session w = Inr tool_definitions \<longrightarrow>
      for_loop w system_prompt tool_definitions (nat max_iterations) (fresh msgs)
        = Inr st_end \<longrightarrow>
      holds_tool_result (current_messages st_end) \<longrightarrow>
      llm w (length (requests st_end)) (summary_request system_prompt st_end)
        = Failed e_end \<longrightarrow>
      fst (call_llm_with_tools w msgs system_prompt max_iterations) = Returned FALLBACK)"
proof -
  have "start_session w = Inr tool_definitions \<longrightarrow>
      for_loop w system_prompt tool_definitions (nat max_iterations) (fresh msgs)
        = Inr st_end \<longrightarrow>
      holds_tool_result (current_messages st_end) \<longrightarrow>
      llm w (length (requests st_end)) (summary_request system_prompt st_end)
        = Failed e_end \<longrightarrow>
      fst (call_llm_with_tools w msgs system_prompt max_iterations) = Returned FALLBACK"
    by (simp add: started after_loop_cases)
  then show ?thesis
    by (auto simp: loop_body_def the_request_def Let_def salvage_cases)
qed

theorem rate_limit_salvage_witness:
  "(\<exists>st'. for_loop w_limited ''sys'' [] (Suc 4) (fresh partial_answer)
       = Inl (Returned (''Found 3 tables.'' @ CHR 0x0A # ''Querying.''), st'))
   \<and> (\<exists>st'. for_loop w_limited ''sys'' [] (Suc 4) (fresh question)
       = Inl (Returned APOLOGY, st'))
   \<and> (\<exists>st'. for_loop w_limited ''sys'' [] (Suc 4) (fresh plain_history)
       = Inl (Raised (AttributeError NO_GET), st'))
   \<and> (\<exists>st'. for_loop w_down ''sys'' [] (Suc 4) (fresh partial_answer)
       = Inl (Raised (ApiError ''overloaded''), st'))
   \<and> fst (call_llm_with_tools w_late question ''sys'' 1) = Returned FALLBACK"
proof -
  let ?st = "\<lparr>current_messages = question @
              [\<lparr>role = Assistant,
                 content = Parts [Text ''look'', ToolUse ''t1'' ''glue_list_databases'' (JObj [])]\<rparr>,
               \<lparr>role = User, content = Parts [ToolResult ''t1'' boom_payload]\<rparr>],
            requests = [\<lparr>messages = question, system = ''sys'', tools = Some []\<rparr>],
            dispatched = [(''t1'', ''glue_list_databases'', JObj [])]\<rparr>"
  have p: "\<forall>msg\<in>set (current_messages (fresh partial_answer)).
             role msg = Assistant \<longrightarrow> parts_only msg"
      "\<forall>msg\<in>set (current_messages (fresh question)). role msg = Assistant \<longrightarrow> parts_only msg"
      "\<not> (\<forall>msg\<in>set (current_messages (fresh plain_history)).
             role msg = Assistant \<longrightarrow> parts_only msg)"
    by (simp_all add: fresh_def partial_answer_def plain_history_def question_def
          parts_only_def)
  have t: "assistant_texts (current_messages (fresh partial_answer))
             = [''Found 3 tables.'', ''Querying.'']"
      "assistant_texts (current_messages (fresh question)) = []"
    by (simp_all add: fresh_def partial_answer_def question_def assistant_texts_def)
  have l: "llm w_limited k req = Failed ''Error code: 429''"
      "llm w_down k req = Failed ''overloaded''" for k req
    by (simp_all add: w_limited_def w_down_def)
  have h: "holds_tool_result (current_messages ?st)"
    by (simp add: holds_tool_result_def)
  have f: "llm w_late (length (requests ?st)) (summary_request ''sys'' ?st) = Failed ''overloaded''"
    by (simp add: w_late_def w_two_def summary_request_def)
  show ?thesis
    using rate_limit_salvage [of w_limited "fresh partial_answer" "''sys''" "[]"
            "''Error code: 429''" 4 0 "[]" "fresh []" "[]"]
          rate_limit_salvage [of w_limited "fresh question" "''sys''" "[]"
            "''Error code: 429''" 4 0 "[]" "fresh []" "[]"]
          rate_limit_salvage [of w_limited "fresh plain_history" "''sys''" "[]"
            "''Error code: 429''" 4 0 "[]" "fresh []" "[]"]
          rate_limit_salvage [of w_down "fresh partial_answer" "''sys''" "[]" "''overloaded''"
            4 0 "[]" "fresh []" "[]"]
          rate_limit_salvage [of w_late "fresh question" "''sys''" "[]" "[]" 0 1 question
            ?st "''overloaded''"]
          rate_limited_examples p l h f w_late_loop(1) worlds_start(6)
    by (simp add: t)
qed

lemma for_loop_calls_continue:
  "for_loop w system_prompt tool_definitions n st = Inr st'
     \<Longrightarrow> length (requests st') = length (requests st) + n"
proof (induction n arbitrary: st)
  case 0
  then show ?case by simp
next
  case (Suc n)
  then obtain st1 where b: "loop_body w system_prompt tool_definitions st = Inr st1"
    and r: "for_loop w system_prompt tool_definitions n st1 = Inr st'"
    by (auto split: sum.splits)
  from loop_body_continue [OF b] Suc.IH [OF r] show ?case by auto
qed

lemma for_loop_calls_finish:
  "for_loop w system_prompt tool_definitions n st = Inl (out, st')
     \<Longrightarrow> length (requests st') \<le> length (requests st) + n"
proof (induction n arbitrary: st)
  case 0
  then show ?case by simp
next
  case (Suc n)
  show ?case
  proof (cases "loop_body w system_prompt tool_definitions st")
    case (Inl d)
    with Suc.prems have "loop_body w system_prompt tool_definitions st = Inl (out, st')"
      by simp
    from loop_body_finish [OF this] show ?thesis by simp
  next
    case (Inr st1)
    with Suc.prems have r: "for_loop w system_prompt tool_definitions n st1 = Inl (out, st')"
      by simp
    from loop_body_continue [OF Inr] Suc.IH [OF r] show ?thesis by auto
  qed
qed

lemma for_loop_finished:
  "for_loop w system_prompt tool_definitions n st = Inl (out, st') \<Longrightarrow>
     requests st' \<noteq> []
   \<and> (\<forall>f. out = Raised f \<longrightarrow>
         (\<exists>e. last_reply w st' = Failed e
             \<and> (if rate_limited e then salvage (current_messages st') = Inl f
                 else f = ApiError e)))
   \<and> (out = Returned [] \<longrightarrow>
         (case last_reply w st' of
            Response blocks \<Rightarrow>
              block_texts blocks = [] \<and> (\<forall>b\<in>set blocks. \<not> is_tool_use_block b)
          | Failed e \<Rightarrow> rate_limited e \<and> salvage (current_messages st') = Inr [[]]))"
proof (induction n arbitrary: st)
  case 0
  then show ?case by simp
next
  case (Suc n)
  show ?case
  proof (cases "loop_body w system_prompt tool_definitions st")
    case (Inl d)
    with Suc.prems have b: "loop_body w system_prompt tool_definitions st = Inl (out, st')"
      by simp
    from loop_body_finish [OF b] have
      eq: "current_messages st' = current_messages st"
        "requests st' = requests st @ [the_request system_prompt tool_definitions st]"
      and r: "\<forall>f. out = Raised f \<longrightarrow>
            (\<exists>e. llm w (length (requests st)) (the_request system_prompt tool_definitions st)
                    = Failed e
                \<and> (if rate_limited e then salvage (current_messages st) = Inl f
                    else f = ApiError e))"
      by simp_all
    from eq have l: "last_reply w st'
        = llm w (length (requests st)) (the_request system_prompt tool_definitions st)"
      by (simp add: last_reply_def)
    have z: "out = Returned [] \<longrightarrow>
         (case last_reply w st' of
            Response blocks \<Rightarrow>
              block_texts blocks = [] \<and> (\<forall>b\<in>set blocks. \<not> is_tool_use_block b)
          | Failed e \<Rightarrow> rate_limited e \<and> salvage (current_messages st') = Inr [[]])"
      using loop_body_empty [of w system_prompt tool_definitions st st'] b
      by (auto simp: l eq(1) split: reply.splits)
    have ne: "requests st' \<noteq> []" using eq(2) by simp
    from r have "\<forall>f. out = Raised f \<longrightarrow>
         (\<exists>e. last_reply w st' = Failed e
             \<and> (if rate_limited e then salvage (current_messages st') = Inl f
                 else f = ApiError e))"
      unfolding l eq(1) .
    with ne z show ?thesis by blast
  next
    case (Inr st1)
    with Suc.prems have "for_loop w system_prompt tool_definitions n st1 = Inl (out, st')"
      by simp
    from Suc.IH [OF this] show ?thesis .
  qed
qed

lemma after_loop_returns:
  "\<exists>s st'. after_loop w system_prompt st = (Returned s, st') \<and> s \<noteq> []
      \<and> length (requests st') \<le> length (requests st) + 1"
  by (auto simp: after_loop_cases FALLBACK_def join_lines_nonempty block_texts_hd
           split: reply.splits)

lemma more_examples:
  "salvage plain_history = Inl (AttributeError NO_GET)" "salvage blank_history = Inr [[]]"
  "\<not> parts_only \<lparr>role = Assistant, content = Plain ''Hello''\<rparr>"
  by (simp_all add: plain_history_def blank_history_def question_def parts_only_def)

text \<open>
  Claim C2, as stated, fails in five ways. The run does not return, an exception leaves
  it: when the tool server does not start; when a model call fails with a message that
  is not classified as rate-limiting; and when a model call fails with a rate-limit
  message while an earlier assistant turn is a plain string. The run returns the empty
  string: when the model answers with no text and no tool use; and when a model call
  fails with a rate-limit message while the only text part of the assistant turns is
  empty.
\<close>

theorem empty_answer_counterexample:
  "call_llm_with_tools w_offline question ''sys'' 10
     = (Raised (SessionError ''No such file or directory''),
        \<lparr>current_messages = question, requests = [], dispatched = []\<rparr>)
   \<and> call_llm_with_tools w_down question ''sys'' 10
     = (Raised (ApiError ''overloaded''),
        \<lparr>current_messages = question,
           requests = [\<lparr>messages = question, system = ''sys'', tools = Some []\<rparr>],
           dispatched = []\<rparr>)
   \<and> call_llm_with_tools w_limited plain_history ''sys'' 10
     = (Raised (AttributeError NO_GET),
        \<lparr>current_messages = plain_history,
           requests = [\<lparr>messages = plain_history, system = ''sys'', tools = Some []\<rparr>],
           dispatched = []\<rparr>)
   \<and> call_llm_with_tools w_silent question ''sys'' 10
     = (Returned [],
        \<lparr>current_messages = question,
           requests = [\<lparr>messages = question, system = ''sys'', tools = Some []\<rparr>],
           dispatched = []\<rparr>)
   \<and> call_llm_with_tools w_limited blank_history ''sys'' 10
     = (Returned [],
        \<lparr>current_messages = blank_history,
           requests = [\<lparr>messages = blank_history, system = ''sys'', tools = Some []\<rparr>],
           dispatched = []\<rparr>)"
proof -
  have a: "call_llm_with_tools w_offline question ''sys'' 10
     = (Raised (SessionError ''No such file or directory''),
        \<lparr>current_messages = question, requests = [], dispatched = []\<rparr>)"
    by (simp add: call_llm_with_tools_def w_offline_def w_two_def)
  have b: "call_llm_with_tools w_down question ''sys'' 10
     = (Raised (ApiError ''overloaded''),
        \<lparr>current_messages = question,
           requests = [\<lparr>messages = question, system = ''sys'', tools = Some []\<rparr>],
           dispatched = []\<rparr>)"
    using rate_limited_examples
    by (simp add: call_llm_with_tools_def loop_body_def Let_def w_two_def w_down_def
          eval_nat_numeral)
  have c: "call_llm_with_tools w_limited msgs ''sys'' 10
     = (case salvage msgs of
          Inl f \<Rightarrow> Raised f
        | Inr text_parts \<Rightarrow>
            if text_parts \<noteq> [] then Returned (join_lines text_parts) else Returned APOLOGY,
        \<lparr>current_messages = msgs,
           requests = [\<lparr>messages = msgs, system = ''sys'', tools = Some []\<rparr>],
           dispatched = []\<rparr>)" for msgs
    using rate_limited_examples
    by (simp add: call_llm_with_tools_def loop_body_def Let_def w_two_def w_limited_def
          eval_nat_numeral split: sum.splits)
  have d: "call_llm_with_tools w_silent question ''sys'' 10
     = (Returned [],
        \<lparr>current_messages = question,
           requests = [\<lparr>messages = question, system = ''sys'', tools = Some []\<rparr>],
           dispatched = []\<rparr>)"
    by (simp add: call_llm_with_tools_def loop_body_def Let_def w_two_def w_silent_def
          eval_nat_numeral)
  show ?thesis by (simp add: a b c d more_examples)
qed

text \<open>
  Claim C2, amended. Every call the function makes to the outside coming back, the run
  ends: the loop is a \<open>for\<close> loop over a range, followed by at most one more call. It
  issues at most \<open>max_iterations + 1\<close> model calls (a negative \<open>max_iterations\<close>
  counting as 0). It returns a string unless an exception leaves it, which happens in
  three cases only: the session does not start, and then no model call is made; the
  last model call failed with a message that is not classified as rate-limiting, and
  that failure is re-raised; the last model call failed with a rate-limit message and
  some assistant message of the conversation holds a non-empty plain string, on which
  the handler's walk raises \<open>AttributeError\<close>. The string returned is not empty, with
  two exceptions: the last model call answered with no tool use and no non-empty text;
  the last model call failed with a rate-limit message and the text parts of the
  assistant messages are a single empty text. In particular, when the loop runs out,
  the run returns a non-empty string.
\<close>

theorem bounded_model_calls:
  "call_llm_with_tools w msgs system_prompt max_iterations = (out, st) \<longrightarrow>
     length (requests st) \<le> nat max_iterations + 1
   \<and> (\<forall>e. start_session w = Inl e \<longrightarrow> out = Raised (SessionError e) \<and> requests st = [])
   \<and> (\<forall>f. out = Raised f \<longrightarrow>
         (\<exists>e. start_session w = Inl e \<and> f = SessionError e)
       \<or> (requests st \<noteq> []
          \<and> (\<exists>e. last_reply w st = Failed e
               \<and> (if rate_limited e
                   then f = AttributeError NO_GET
                        \<and> (\<exists>msg\<in>set (current_messages st).
                              role msg = Assistant \<and> \<not> parts_only msg)
                   else f = ApiError e))))
   \<and> (out = Returned [] \<longrightarrow>
         requests st \<noteq> []
       \<and> (case last_reply w st of
            Response blocks \<Rightarrow>
              block_texts blocks = [] \<and> (\<forall>b\<in>set blocks. \<not> is_tool_use_block b)
          | Failed e \<Rightarrow> rate_limited e \<and> assistant_texts (current_messages st) = [[]]))
   \<and> (\<forall>tool_definitions st'.
         start_session w = Inr tool_definitions \<longrightarrow>
         for_loop w system_prompt tool_definitions (nat max_iterations) (fresh msgs) = Inr st'
           \<longrightarrow> (\<exists>s. out = Returned s \<and> s \<noteq> []))"
proof
  assume run: "call_llm_with_tools w msgs system_prompt max_iterations = (out, st)"
  show "length (requests st) \<le> nat max_iterations + 1
   \<and> (\<forall>e. start_session w = Inl e \<longrightarrow> out = Raised (SessionError e) \<and> requests st = [])
   \<and> (\<forall>f. out = Raised f \<longrightarrow>
         (\<exists>e. start_session w = Inl e \<and> f = SessionError e)
       \<or> (requests st \<noteq> []
          \<and> (\<exists>e. last_reply w st = Failed e
               \<and> (if rate_limited e
                   then f = AttributeError NO_GET
                        \<and> (\<exists>msg\<in>set (current_messages st).
                              role msg = Assistant \<and> \<not> parts_only msg)
                   else f = ApiError e))))
   \<and> (out = Returned [] \<longrightarrow>
         requests st \<noteq> []
       \<and> (case last_reply w st of
            Response blocks \<Rightarrow>
              block_texts blocks = [] \<and> (\<forall>b\<in>set blocks. \<not> is_tool_use_block b)
          | Failed e \<Rightarrow> rate_limited e \<and> assistant_texts (current_messages st) = [[]]))
   \<and> (\<forall>tool_definitions st'.
         start_session w = Inr tool_definitions \<longrightarrow>
         for_loop w system_prompt tool_definitions (nat max_iterations) (fresh msgs) = Inr st'
           \<longrightarrow> (\<exists>s. out = Returned s \<and> s \<noteq> []))"
  proof (cases "start_session w")
    case (Inl e)
    from not_started [OF Inl, of msgs system_prompt max_iterations] run
    have "out = Raised (SessionError e)" "st = fresh msgs" by simp_all
    with Inl show ?thesis by (simp add: fresh_def)
  next
    case (Inr tds)
    note go = started [OF Inr, of msgs system_prompt max_iterations]
    show ?thesis
    proof (cases "for_loop w system_prompt tds (nat max_iterations) (fresh msgs)")
      case (Inl d)
      with run go have fl: "for_loop w system_prompt tds (nat max_iterations) (fresh msgs)
          = Inl (out, st)"
        by simp
      from for_loop_calls_finish [OF fl] have n: "length (requests st) \<le> nat max_iterations + 1"
        by (simp add: fresh_def)
      from for_loop_finished [OF fl] have ne: "requests st \<noteq> []"
        and r: "\<forall>f. out = Raised f \<longrightarrow>
           (\<exists>e. last_reply w st = Failed e
               \<and> (if rate_limited e then salvage (current_messages st) = Inl f
                   else f = ApiError e))"
        and z: "out = Returned [] \<longrightarrow>
           (case last_reply w st of
              Response blocks \<Rightarrow>
                block_texts blocks = [] \<and> (\<forall>b\<in>set blocks. \<not> is_tool_use_block b)
            | Failed e \<Rightarrow> rate_limited e \<and> salvage (current_messages st) = Inr [[]])"
        by simp_all
      have r': "\<forall>f. out = Raised f \<longrightarrow>
           (\<exists>e. last_reply w st = Failed e
               \<and> (if rate_limited e
                   then f = AttributeError NO_GET
                        \<and> (\<exists>msg\<in>set (current_messages st).
                              role msg = Assistant \<and> \<not> parts_only msg)
                   else f = ApiError e))"
      proof (intro allI impI)
        fix f assume "out = Raised f"
        with r obtain e where e: "last_reply w st = Failed e"
          "if rate_limited e then salvage (current_messages st) = Inl f else f = ApiError e"
          by blast
        from e(2) have "if rate_limited e
                   then f = AttributeError NO_GET
                        \<and> (\<exists>msg\<in>set (current_messages st).
                              role msg = Assistant \<and> \<not> parts_only msg)
                   else f = ApiError e"
          by (auto simp: salvage_cases split: if_splits)
        with e(1) show "\<exists>e. last_reply w st = Failed e
               \<and> (if rate_limited e
                   then f = AttributeError NO_GET
                        \<and> (\<exists>msg\<in>set (current_messages st).
                              role msg = Assistant \<and> \<not> parts_only msg)
                   else f = ApiError e)"
          by blast
      qed
      have z': "out = Returned [] \<longrightarrow>
           (case last_reply w st of
              Response blocks \<Rightarrow>
                block_texts blocks = [] \<and> (\<forall>b\<in>set blocks. \<not> is_tool_use_block b)
            | Failed e \<Rightarrow> rate_limited e \<and> assistant_texts (current_messages st) = [[]])"
        using z by (auto simp: salvage_cases split: reply.splits if_splits)
      from n ne r' z' Inr Inl show ?thesis by simp
    next
      case (Inr st1)
      with run go have al: "after_loop w system_prompt st1 = (out, st)"
        by simp
      from after_loop_returns [of w system_prompt st1] al
      obtain s where s: "out = Returned s" "s \<noteq> []"
        "length (requests st) \<le> length (requests st1) + 1" by auto
      from for_loop_calls_continue [OF Inr] s \<open>start_session w = Inr tds\<close> show ?thesis
        by (simp add: fresh_def)
    qed
  qed
qed

theorem bounded_model_calls_witness:
  "length (requests (snd (call_llm_with_tools w_two question ''sys'' 1))) \<le> 2
   \<and> (\<exists>s. fst (call_llm_with_tools w_two question ''sys'' 1) = Returned s \<and> s \<noteq> [])
   \<and> call_llm_with_tools w_offline question ''sys'' 1
       = (Raised (SessionError ''No such file or directory''), fresh question)"
proof -
  let ?run = "call_llm_with_tools w_two question ''sys'' 1"
  let ?off = "call_llm_with_tools w_offline question ''sys'' 1"
  have b: "for_loop w_two ''sys'' [] (nat 1) (fresh question)
     = Inr \<lparr>current_messages = question @
              [\<lparr>role = Assistant,
                 content = Parts [Text ''look'', ToolUse ''t1'' ''glue_list_databases'' (JObj [])]\<rparr>,
               \<lparr>role = User, content = Parts [ToolResult ''t1'' boom_payload]\<rparr>],
            requests = [\<lparr>messages = question, system = ''sys'', tools = Some []\<rparr>],
            dispatched = [(''t1'', ''glue_list_databases'', JObj [])]\<rparr>"
    by (rule w_two_loop)
  have c: "start_session w_offline = Inl ''No such file or directory''"
    "snd ?off = fresh question"
    by (simp_all add: w_offline_def w_two_def call_llm_with_tools_def fresh_def)
  have t: "length (requests (snd ?run)) \<le> nat 1 + 1 \<and> (\<exists>s. fst ?run = Returned s \<and> s \<noteq> [])"
    using bounded_model_calls [of w_two question "''sys''" 1 "fst ?run" "snd ?run"] b
      worlds_start(1)
    by auto
  have o: "fst ?off = Raised (SessionError ''No such file or directory'')"
    using bounded_model_calls [of w_offline question "''sys''" 1 "fst ?off" "snd ?off"] c(1)
    by auto
  from t o c(2) show ?thesis by (simp add: prod_eq_iff)
qed

lemma answered_append: "answered xs \<Longrightarrow> answered ys \<Longrightarrow> answered (xs @ ys)"
proof (induction xs rule: answered.induct)
  case 1
  then show ?case by simp
next
  case (2 m)
  then show ?case by (cases ys) simp_all
next
  case (3 m r ms)
  then show ?case by (auto split: if_splits)
qed

lemma count_results_append: "count_results (xs @ ys) = count_results xs + count_results ys"
  by (simp add: count_results_def)

lemma count_uses_append: "count_uses (xs @ ys) = count_uses xs + count_uses ys"
  by (simp add: count_uses_def)

lemma run_inv_continue:
  assumes inv: "run_inv msgs st"
    and step: "loop_body w system_prompt tool_definitions st = Inr st'"
  shows "run_inv msgs st'"
proof -
  from inv obtain suf where suf: "current_messages st = msgs @ suf" "answered suf"
    "count_results suf = length (dispatched st)" "count_uses suf = length (dispatched st)"
    and reqs: "\<forall>req\<in>set (requests st). \<exists>suf. messages req = msgs @ suf \<and> answered suf"
    by (auto simp: run_inv_def)
  from loop_body_continue [OF step] obtain ac tid tname tinput result where
    ids: "tool_use_ids ac = [tid]" "tool_result_ids ac = []"
    and cm: "current_messages st' = current_messages st @
             [\<lparr>role = Assistant, content = Parts ac\<rparr>,
              \<lparr>role = User, content = Parts [ToolResult tid result]\<rparr>]"
    and dp: "dispatched st' = dispatched st @ [(tid, tname, tinput)]"
    and rq: "requests st' = requests st @ [the_request system_prompt tool_definitions st]"
    by blast
  let ?pair = "[\<lparr>role = Assistant, content = Parts ac\<rparr>,
                \<lparr>role = User, content = Parts [ToolResult tid result]\<rparr>]"
  have pair: "answered ?pair" "count_results ?pair = 1" "count_uses ?pair = 1"
    using ids by (simp_all add: msg_parts_def count_results_def count_uses_def)
  have "current_messages st' = msgs @ (suf @ ?pair)" using cm suf(1) by simp
  moreover have "answered (suf @ ?pair)" using suf(2) pair(1) by (rule answered_append)
  moreover have "count_results (suf @ ?pair) = length (dispatched st')"
    using suf(3) pair(2) dp by (simp add: count_results_append)
  moreover have "count_uses (suf @ ?pair) = length (dispatched st')"
    using suf(4) pair(3) dp by (simp add: count_uses_append)
  moreover have "\<forall>req\<in>set (requests st'). \<exists>suf. messages req = msgs @ suf \<and> answered suf"
    using reqs rq suf(1,2) by (auto simp: the_request_def)
  ultimately show ?thesis unfolding run_inv_def by blast
qed

lemma run_inv_finish:
  assumes inv: "run_inv msgs st"
    and step: "loop_body w system_prompt tool_definitions st = Inl (out, st')"
  shows "run_inv msgs st'"
proof -
  from loop_body_finish [OF step] have
    eq: "current_messages st' = current_messages st" "dispatched st' = dispatched st"
        "requests st' = requests st @ [the_request system_prompt tool_definitions st]"
    by simp_all
  from inv show ?thesis
    unfolding run_inv_def eq by (auto simp: the_request_def)
qed

lemma run_inv_for_loop:
  "run_inv msgs st \<Longrightarrow>
   (for_loop w system_prompt tool_definitions n st = Inr st' \<longrightarrow> run_inv msgs st')
   \<and> (for_loop w system_prompt tool_definitions n st = Inl (out, st') \<longrightarrow> run_inv msgs st')"
proof (induction n arbitrary: st)
  case 0
  then show ?case by auto
next
  case (Suc n)
  show ?case
  proof (cases "loop_body w system_prompt tool_definitions st")
    case (Inl d)
    then show ?thesis using run_inv_finish [OF Suc.prems, of w system_prompt tool_definitions]
      by (cases d) auto
  next
    case (Inr st1)
    from run_inv_continue [OF Suc.prems Inr] have "run_inv msgs st1" .
    from Suc.IH [OF this] Inr show ?thesis by simp
  qed
qed

lemma run_inv_after_loop:
  assumes inv: "run_inv msgs st" and al: "after_loop w system_prompt st = (out, st')"
  shows "run_inv msgs st'"
proof (cases "holds_tool_result (current_messages st)")
  case False
  with al inv show ?thesis by (simp add: after_loop_cases)
next
  case True
  let ?p = "\<lparr>role = User, content = Plain ANALYSIS_PROMPT\<rparr>"
  from True al have st': "st' = st\<lparr>current_messages := current_messages st @ [?p],
      requests := requests st @ [summary_request system_prompt st]\<rparr>"
    by (auto simp: after_loop_cases summary_request_def)
  from inv obtain suf where suf: "current_messages st = msgs @ suf" "answered suf"
    "count_results suf = length (dispatched st)" "count_uses suf = length (dispatched st)"
    and reqs: "\<forall>req\<in>set (requests st). \<exists>suf. messages req = msgs @ suf \<and> answered suf"
    by (auto simp: run_inv_def)
  have p: "answered [?p]" "count_results [?p] = 0" "count_uses [?p] = 0"
    by (simp_all add: msg_parts_def count_results_def count_uses_def)
  have a: "answered (suf @ [?p])" using suf(2) p(1) by (rule answered_append)
  have "current_messages st' = msgs @ (suf @ [?p])" using st' suf(1) by simp
  moreover have "count_results (suf @ [?p]) = length (dispatched st')"
    using suf(3) p(2) st' by (simp add: count_results_append)
  moreover have "count_uses (suf @ [?p]) = length (dispatched st')"
    using suf(4) p(3) st' by (simp add: count_uses_append)
  moreover have "\<forall>req\<in>set (requests st'). \<exists>suf. messages req = msgs @ suf \<and> answered suf"
  proof
    fix req assume "req \<in> set (requests st')"
    then consider "req \<in> set (requests st)" | "req = summary_request system_prompt st"
      using st' by auto
    then show "\<exists>suf. messages req = msgs @ suf \<and> answered suf"
    proof cases
      case 1
      with reqs show ?thesis by blast
    next
      case 2
      then have "messages req = msgs @ (suf @ [?p])"
        using suf(1) by (simp add: summary_request_def)
      with a show ?thesis by blast
    qed
  qed
  ultimately show ?thesis using a unfolding run_inv_def by blast
qed

lemma run_inv_fresh: "run_inv msgs (fresh msgs)"
  by (simp add: run_inv_def fresh_def count_results_def count_uses_def)

text \<open>
  Claim C9. For a run that starts from the conversation \<open>msgs\<close>: the messages of every
  model call issued are \<open>msgs\<close> followed by appended messages in which every tool use
  is answered, that is, directly followed by a user message with exactly one tool result
  per tool use, carrying the same id; the same holds of the final conversation. The
  appended messages hold as many tool results, and as many tool uses, as tool calls were
  dispatched; so when \<open>msgs\<close> holds no tool result, as for the single question a run is
  started with, the tool results of the whole conversation number the dispatched tool
  uses.
\<close>

theorem tool_use_answered:
  "call_llm_with_tools w msgs system_prompt max_iterations = (out, st) \<longrightarrow>
     (\<forall>req\<in>set (requests st). \<exists>suf. messages req = msgs @ suf \<and> answered suf)
   \<and> (\<exists>suf. current_messages st = msgs @ suf \<and> answered suf
          \<and> count_results suf = length (dispatched st)
          \<and> count_uses suf = length (dispatched st))
   \<and> (count_results msgs = 0 \<longrightarrow> count_results (current_messages st) = length (dispatched st))"
proof
  assume run: "call_llm_with_tools w msgs system_prompt max_iterations = (out, st)"
  have inv: "run_inv msgs st"
  proof (cases "start_session w")
    case (Inl e)
    from not_started [OF Inl, of msgs system_prompt max_iterations] run
    have "st = fresh msgs" by simp
    then show ?thesis by (simp add: run_inv_fresh)
  next
    case (Inr tool_definitions)
    note go = started [OF Inr, of msgs system_prompt max_iterations]
    show ?thesis
    proof (cases "for_loop w system_prompt tool_definitions (nat max_iterations) (fresh msgs)")
      case (Inl d)
      with run go
      have "for_loop w system_prompt tool_definitions (nat max_iterations) (fresh msgs)
          = Inl (out, st)"
        by simp
      with run_inv_for_loop [OF run_inv_fresh] show ?thesis by blast
    next
      case (Inr st1)
      with run go have al: "after_loop w system_prompt st1 = (out, st)"
        by simp
      from run_inv_for_loop [OF run_inv_fresh] Inr have "run_inv msgs st1" by blast
      from run_inv_after_loop [OF this al] show ?thesis .
    qed
  qed
  then obtain suf where suf: "current_messages st = msgs @ suf" "answered suf"
    "count_results suf = length (dispatched st)" "count_uses suf = length (dispatched st)"
    and reqs: "\<forall>req\<in>set (requests st). \<exists>suf. messages req = msgs @ suf \<and> answered suf"
    by (auto simp: run_inv_def)
  have "count_results msgs = 0 \<longrightarrow> count_results (current_messages st) = length (dispatched st)"
    using suf(1,3) by (simp add: count_results_append)
  with suf reqs show
    "(\<forall>req\<in>set (requests st). \<exists>suf. messages req = msgs @ suf \<and> answered suf)
   \<and> (\<exists>suf. current_messages st = msgs @ suf \<and> answered suf
          \<and> count_results suf = length (dispatched st)
          \<and> count_uses suf = length (dispatched st))
   \<and> (count_results msgs = 0 \<longrightarrow> count_results (current_messages st) = length (dispatched st))"
    by blast
qed

theorem tool_use_answered_witness:
  "length (dispatched (snd (call_llm_with_tools w_two question ''sys'' 1))) = 1
   \<and> count_results (current_messages (snd (call_llm_with_tools w_two question ''sys'' 1))) = 1
   \<and> length (requests (snd (call_llm_with_tools w_two question ''sys'' 1))) = 2
   \<and> list_all (\<lambda>req. \<exists>suf. messages req = question @ suf \<and> answered suf)
        (requests (snd (call_llm_with_tools w_two question ''sys'' 1)))"
proof -
  let ?run = "call_llm_with_tools w_two question ''sys'' 1"
  have a: "?run = (fst ?run, snd ?run)" by simp
  have b: "count_results question = 0"
    by (simp add: count_results_def question_def msg_parts_def)
  have c: "length (dispatched (snd ?run)) = 1" "length (requests (snd ?run)) = 2"
    by (simp_all add: run_eval w_two_def)
  from tool_use_answered [of w_two question "''sys''" 1 "fst ?run" "snd ?run"] a b c
  show ?thesis by (simp add: list_all_iff)
qed


end
